theory Spec2Isabelle
  imports Complex_Main "HOL-Library.Multiset"
begin

section \<open>The trainer of mlx-image (src/mlxim/trainer/trainer.py)\<close>

text \<open>
  The class \<^verbatim>\<open>Trainer\<close> drives a supervised training run: \<^verbatim>\<open>train\<close> loops over the
  epochs, each epoch runs \<^verbatim>\<open>train_epoch\<close>, then \<^verbatim>\<open>val_epoch\<close> when a validation loader
  is there, then the checkpoint policy. The embedding keeps the three levels and the two
  step functions, under the names of the source.

  Conventions of the embedding.
  \<^item> The object \<^verbatim>\<open>self\<close>, together with what the methods change outside of it (the
    clock, the standard output), is the record \<open>trainer\<close>; a method takes it and
    returns it updated.
  \<^item> A method returns a pair: \<open>Inl\<close> of the exception it raised or \<open>Inr\<close> of its
    value, and the state it left behind (what a Python method has mutated stays mutated
    when it raises).
  \<^item> The collaborators that the file imports (the model, the optimizer, the operations of
    mlx, the checkpoint policy, the clock) are the fields of the record \<open>env\<close>: total
    functions, so a collaborator that raises is outside the embedding.
  \<^item> A Python float is an exact rational or \<open>NaN\<close>; the rounding of IEEE arithmetic,
    the infinities and overflow are not modelled. \<^verbatim>\<open>mx.array\<close> is the type variable
    \<open>'t\<close>.
\<close>

subsection \<open>Values\<close>

datatype error = ZeroDivisionError | TypeError | SystemExit

datatype pyfloat = Fl rat | NaN

text \<open>\<^verbatim>\<open>int(x)\<close> on a float truncates towards zero.\<close>

definition py_int :: "rat \<Rightarrow> int" where
  "py_int x = (if x < 0 then \<lceil>x\<rceil> else \<lfloor>x\<rfloor>)"

text \<open>
  \<^verbatim>\<open>a % b\<close> on Python integers: \<^verbatim>\<open>ZeroDivisionError\<close> when \<open>b = 0\<close>, else the
  remainder with the sign of \<open>b\<close>, which is \<open>mod\<close> on \<open>int\<close>.
\<close>

definition py_mod :: "int \<Rightarrow> int \<Rightarrow> error + int" where
  "py_mod a b = (if b = 0 then Inl ZeroDivisionError else Inr (a mod b))"

text \<open>
  \<^verbatim>\<open>n / d\<close> with \<open>n\<close> an integer and \<open>d\<close> a float: Python raises
  \<^verbatim>\<open>ZeroDivisionError\<close> when \<open>d\<close> is zero, for floats too.
\<close>

definition py_truediv :: "nat \<Rightarrow> rat \<Rightarrow> error + pyfloat" where
  "py_truediv n d = (if d = 0 then Inl ZeroDivisionError else Inr (Fl (of_nat n / d)))"

fun fl_val :: "pyfloat \<Rightarrow> rat" where
  "fl_val (Fl r) = r"
| "fl_val NaN = 0"

text \<open>
  \<^verbatim>\<open>np.mean\<close> of a Python list of floats: \<open>NaN\<close> on the empty list (numpy warns and
  returns nan) and when an element is \<open>NaN\<close>, else the sum divided by the length.
\<close>

definition np_mean :: "pyfloat list \<Rightarrow> pyfloat" where
  "np_mean xs =
     (if xs = [] \<or> NaN \<in> set xs then NaN
      else Fl (sum_list (map fl_val xs) / of_nat (length xs)))"

subsection \<open>The accuracy accumulator\<close>

text \<open>
  Modelled from the spec: the class \<^verbatim>\<open>Accuracy\<close> (\<^verbatim>\<open>mlxim/metrics/classification.py\<close>)
  is not among the sources. The spec gives it three operations,
  \<^verbatim>\<open>update(predictions, targets)\<close>, \<^verbatim>\<open>compute() -> float\<close> and \<^verbatim>\<open>reset()\<close>, and
  asks that an update made before a reset never influences a compute made after it. So
  the state of an accumulator is the list of the updates made since the last reset,
  \<^verbatim>\<open>reset\<close> empties it, a new accumulator is empty, and \<^verbatim>\<open>compute\<close> is any function of
  that list (the field \<open>acc_compute\<close> of \<open>env\<close>: the formula of the metric is outside
  the spec).
\<close>

type_synonym 't accuracy = "('t \<times> 't) list"

definition Accuracy :: "'t accuracy" where
  \<comment> \<open>Modelled from the spec: \<^verbatim>\<open>Accuracy()\<close>, a new accumulator, in its reset state.\<close>
  "Accuracy = []"

definition acc_update :: "'t accuracy \<Rightarrow> 't \<Rightarrow> 't \<Rightarrow> 't accuracy" where
  \<comment> \<open>Modelled from the spec: \<^verbatim>\<open>update(predictions, targets)\<close> records one more update.\<close>
  "acc_update a logits target = a @ [(logits, target)]"

definition acc_reset :: "'t accuracy \<Rightarrow> 't accuracy" where
  \<comment> \<open>Modelled from the spec: \<^verbatim>\<open>reset()\<close> forgets every update.\<close>
  "acc_reset a = []"

subsection \<open>What is printed, and the calls that are traced\<close>

text \<open>
  A printed line is kept as its kind and the values formatted into it, not as the
  formatted text. \<open>IterLine\<close> is the progress line of \<^verbatim>\<open>train_epoch\<close>.
\<close>

datatype 't line =
    EpochHeader nat int
  | IterLine nat nat pyfloat pyfloat 't
  | TrainSummary rat pyfloat pyfloat pyfloat
  | RunningValidation
  | ValSummary pyfloat pyfloat pyfloat
  | Stars
  | EarlyStopping nat

text \<open>
  The field \<open>calls\<close> of the state is a history variable: \<^verbatim>\<open>train_epoch\<close> and
  \<^verbatim>\<open>val_epoch\<close> append \<open>TrainPhase\<close> and \<open>ValPhase\<close> when they are entered, with the
  content of their accumulator at that moment, and \<^verbatim>\<open>train\<close> appends \<open>CkptStep\<close> at
  each call of \<^verbatim>\<open>model_checkpoint.step\<close>, with the epoch, the metrics dictionary
  passed (the key-value pairs of the dict literal, in order) and what
  \<^verbatim>\<open>model_checkpoint.patience_over\<close> read right after the call.
\<close>

datatype 't call =
    TrainPhase "'t accuracy"
  | ValPhase "'t accuracy"
  | CkptStep nat "(string \<times> pyfloat) list" bool

subsection \<open>The collaborators\<close>

record ('t, 'm, 'o, 'p, 'c) env =
  forward :: "'m \<Rightarrow> 't \<Rightarrow> 't"  \<comment> \<open>\<^verbatim>\<open>self.model(x)\<close>\<close>
  model_train :: "'m \<Rightarrow> 'm"  \<comment> \<open>\<^verbatim>\<open>self.model.train()\<close>\<close>
  model_eval :: "'m \<Rightarrow> 'm"  \<comment> \<open>\<^verbatim>\<open>self.model.eval()\<close>\<close>
  grad :: "'m \<Rightarrow> 't \<Rightarrow> 't \<Rightarrow> 'p"  \<comment> \<open>the gradients that \<^verbatim>\<open>nn.value_and_grad\<close> returns\<close>
  opt_update :: "'o \<Rightarrow> 'm \<Rightarrow> 'p \<Rightarrow> 'o \<times> 'm"  \<comment> \<open>\<^verbatim>\<open>self.optimizer.update(self.model, grads)\<close>\<close>
  learning_rate :: "'o \<Rightarrow> 't"  \<comment> \<open>\<^verbatim>\<open>self.optimizer.state['learning_rate']\<close>\<close>
  mx_mean :: "'t \<Rightarrow> 't"  \<comment> \<open>\<^verbatim>\<open>mx.mean\<close>\<close>
  item :: "'t \<Rightarrow> pyfloat"  \<comment> \<open>\<^verbatim>\<open>loss.item()\<close>\<close>
  shape0 :: "'t \<Rightarrow> nat"  \<comment> \<open>\<^verbatim>\<open>x.shape[0]\<close>\<close>
  get_weights :: "'m \<Rightarrow> 'p"  \<comment> \<open>\<^verbatim>\<open>get_weights(self.model)\<close>\<close>
  ckpt_step :: "'c \<Rightarrow> nat \<Rightarrow> (string \<times> pyfloat) list \<Rightarrow> 'p \<Rightarrow> 'c"
    \<comment> \<open>\<^verbatim>\<open>self.model_checkpoint.step(epoch=, metrics=, weights=)\<close>\<close>
  patience_over :: "'c \<Rightarrow> bool"  \<comment> \<open>\<^verbatim>\<open>self.model_checkpoint.patience_over\<close>\<close>
  acc_compute :: "'t accuracy \<Rightarrow> pyfloat"  \<comment> \<open>\<^verbatim>\<open>compute()\<close> of an accumulator\<close>
  perf_counter :: "nat \<Rightarrow> rat"  \<comment> \<open>the value of the \<open>n\<close>-th call of \<^verbatim>\<open>time.perf_counter()\<close>\<close>

subsection \<open>The trainer\<close>

text \<open>
  The fields of \<^verbatim>\<open>self\<close> as \<^verbatim>\<open>__init__\<close> sets them, then \<open>ticks\<close> (how many times the
  clock has been read), \<open>stdout\<close> (the lines printed) and \<open>calls\<close>. A data loader is
  the list of the batches that one iteration over it yields, and \<^verbatim>\<open>len\<close> of it is the
  length of that list. Keyword arguments are an association list.
\<close>

record ('t, 'm, 'o, 'v, 'c) trainer =
  model :: 'm
  optimizer :: 'o
  loss_fn :: "'t \<Rightarrow> 't \<Rightarrow> (string \<times> 'v) list \<Rightarrow> 't"
  loss_fn_args :: "(string \<times> 'v) list option"
  train_loader :: "('t \<times> 't) list"
  val_loader :: "('t \<times> 't) list option"
  log_every :: int
  max_epochs :: int
  model_checkpoint :: "'c option"
  train_acc :: "'t accuracy"
  val_acc :: "'t accuracy"
  ticks :: nat
  stdout :: "'t line list"
  calls :: "'t call list"

text \<open>
  \<^verbatim>\<open>__init__\<close>. The call \<^verbatim>\<open>mx.set_default_device(device)\<close> and the list
  \<^verbatim>\<open>self.state\<close> (the arrays that \<^verbatim>\<open>mx.eval\<close> forces) have no counterpart here.
  \<open>log_every_frac\<close> is the argument \<^verbatim>\<open>log_every\<close>, a fraction of an epoch.
\<close>

definition init ::
  "'m \<Rightarrow> 'o \<Rightarrow> ('t \<Rightarrow> 't \<Rightarrow> (string \<times> 'v) list \<Rightarrow> 't) \<Rightarrow> ('t \<times> 't) list \<Rightarrow>
   (string \<times> 'v) list option \<Rightarrow> ('t \<times> 't) list option \<Rightarrow> rat \<Rightarrow> int \<Rightarrow> 'c option \<Rightarrow>
   ('t, 'm, 'o, 'v, 'c) trainer" where
  "init model_arg optimizer_arg loss_fn_arg train_loader_arg loss_fn_args_arg val_loader_arg
        log_every_frac max_epochs_arg model_checkpoint_arg =
     \<lparr> model = model_arg,
       optimizer = optimizer_arg,
       loss_fn = loss_fn_arg,
       loss_fn_args = loss_fn_args_arg,
       train_loader = train_loader_arg,
       val_loader = val_loader_arg,
       log_every = py_int (log_every_frac * of_nat (length train_loader_arg)),
       max_epochs = max_epochs_arg,
       model_checkpoint = model_checkpoint_arg,
       train_acc = Accuracy,
       val_acc = Accuracy,
       ticks = 0,
       stdout = [],
       calls = [] \<rparr>"

text \<open>Reading the clock and printing a line.\<close>

definition tick :: "('t, 'm, 'o, 'v, 'c) trainer \<Rightarrow> ('t, 'm, 'o, 'v, 'c) trainer" where
  "tick s = s\<lparr>ticks := Suc (ticks s)\<rparr>"

definition print :: "'t line \<Rightarrow> ('t, 'm, 'o, 'v, 'c) trainer \<Rightarrow> ('t, 'm, 'o, 'v, 'c) trainer" where
  "print l s = s\<lparr>stdout := stdout s @ [l]\<rparr>"

definition trace :: "'t call \<Rightarrow> ('t, 'm, 'o, 'v, 'c) trainer \<Rightarrow> ('t, 'm, 'o, 'v, 'c) trainer" where
  "trace c s = s\<lparr>calls := calls s @ [c]\<rparr>"

subsection \<open>The two step functions\<close>

text \<open>
  \<^verbatim>\<open>_train_step\<close>. Unpacking \<^verbatim>\<open>**self.loss_fn_args\<close> raises \<^verbatim>\<open>TypeError\<close> when the
  field is \<^verbatim>\<open>None\<close>: after the forward pass, before the loss function is called.
\<close>

definition train_step ::
  "('t, 'm, 'o, 'p, 'c) env \<Rightarrow> ('t, 'm, 'o, 'v, 'c) trainer \<Rightarrow> 't \<Rightarrow> 't \<Rightarrow>
   (error + 't) \<times> ('t, 'm, 'o, 'v, 'c) trainer" where
  "train_step e s x target =
     (let logits = forward e (model s) x in
      case loss_fn_args s of
        None \<Rightarrow> (Inl TypeError, s)
      | Some kwargs \<Rightarrow>
          let loss = mx_mean e (loss_fn s logits target kwargs);
              s = s\<lparr>train_acc := acc_update (train_acc s) logits target\<rparr>
          in (Inr loss, s))"

text \<open>\<^verbatim>\<open>_val_step\<close>: the same, on the validation accumulator.\<close>

definition val_step ::
  "('t, 'm, 'o, 'p, 'c) env \<Rightarrow> ('t, 'm, 'o, 'v, 'c) trainer \<Rightarrow> 't \<Rightarrow> 't \<Rightarrow>
   (error + 't) \<times> ('t, 'm, 'o, 'v, 'c) trainer" where
  "val_step e s x target =
     (let logits = forward e (model s) x in
      case loss_fn_args s of
        None \<Rightarrow> (Inl TypeError, s)
      | Some kwargs \<Rightarrow>
          let loss = mx_mean e (loss_fn s logits target kwargs);
              s = s\<lparr>val_acc := acc_update (val_acc s) logits target\<rparr>
          in (Inr loss, s))"

subsection \<open>The training phase\<close>

text \<open>
  The body of the loop of \<^verbatim>\<open>train_epoch\<close>, then the loop. \<open>batch_idx\<close> is the counter
  of \<^verbatim>\<open>enumerate\<close>; \<open>epoch_loss\<close> and \<open>throughput\<close> are the two local lists.
  \<^verbatim>\<open>nn.value_and_grad(self.model, self._train_step)\<close> runs \<^verbatim>\<open>_train_step\<close> once and
  returns its value with the gradients; \<^verbatim>\<open>np.mean\<close> of the one number
  \<^verbatim>\<open>epoch_loss[-1]\<close> is that number.
\<close>

definition train_batch ::
  "('t, 'm, 'o, 'p, 'c) env \<Rightarrow> nat \<Rightarrow> 't \<times> 't \<Rightarrow> pyfloat list \<Rightarrow> pyfloat list \<Rightarrow>
   ('t, 'm, 'o, 'v, 'c) trainer \<Rightarrow>
   (error + pyfloat list \<times> pyfloat list) \<times> ('t, 'm, 'o, 'v, 'c) trainer" where
  "train_batch e batch_idx batch epoch_loss throughput s =
     (let (x, target) = batch;
          tic = perf_counter e (ticks s);
          s = tick s
      in case train_step e s x target of
           (Inl err, s) \<Rightarrow> (Inl err, s)
         | (Inr loss, s) \<Rightarrow>
             let grads = grad e (model s) x target;
                 (opt, mdl) = opt_update e (optimizer s) (model s) grads;
                 s = s\<lparr>optimizer := opt, model := mdl\<rparr>;
                 toc = perf_counter e (ticks s);
                 s = tick s;
                 epoch_loss = epoch_loss @ [item e loss]
             in case py_truediv (shape0 e x) (toc - tic) of
                  Inl err \<Rightarrow> (Inl err, s)
                | Inr tp \<Rightarrow>
                    let throughput = throughput @ [tp]
                    in case py_mod (int batch_idx) (log_every s) of
                         Inl err \<Rightarrow> (Inl err, s)
                       | Inr r \<Rightarrow>
                           let s = (if r = 0
                                    then print (IterLine batch_idx (length (train_loader s))
                                                  (last epoch_loss) (last throughput)
                                                  (learning_rate e (optimizer s))) s
                                    else s)
                           in (Inr (epoch_loss, throughput), s))"

fun train_batches ::
  "('t, 'm, 'o, 'p, 'c) env \<Rightarrow> nat \<Rightarrow> ('t \<times> 't) list \<Rightarrow> pyfloat list \<Rightarrow> pyfloat list \<Rightarrow>
   ('t, 'm, 'o, 'v, 'c) trainer \<Rightarrow>
   (error + pyfloat list \<times> pyfloat list) \<times> ('t, 'm, 'o, 'v, 'c) trainer" where
  "train_batches e batch_idx [] epoch_loss throughput s = (Inr (epoch_loss, throughput), s)"
| "train_batches e batch_idx (batch # rest) epoch_loss throughput s =
     (case train_batch e batch_idx batch epoch_loss throughput s of
        (Inl err, s) \<Rightarrow> (Inl err, s)
      | (Inr (epoch_loss, throughput), s) \<Rightarrow>
          train_batches e (Suc batch_idx) rest epoch_loss throughput s)"

definition train_epoch ::
  "('t, 'm, 'o, 'p, 'c) env \<Rightarrow> ('t, 'm, 'o, 'v, 'c) trainer \<Rightarrow>
   (error + pyfloat \<times> pyfloat \<times> pyfloat) \<times> ('t, 'm, 'o, 'v, 'c) trainer" where
  "train_epoch e s =
     (let s = trace (TrainPhase (train_acc s)) s;
          s = s\<lparr>model := model_train e (model s)\<rparr>
      in case train_batches e 0 (train_loader s) [] [] s of
           (Inl err, s) \<Rightarrow> (Inl err, s)
         | (Inr (epoch_loss, throughput), s) \<Rightarrow>
             let epoch_acc = acc_compute e (train_acc s);
                 s = s\<lparr>train_acc := acc_reset (train_acc s)\<rparr>
             in (Inr (np_mean epoch_loss, epoch_acc, np_mean throughput), s))"

subsection \<open>The validation phase\<close>

text \<open>
  \<^verbatim>\<open>val_epoch\<close>. Iterating over \<^verbatim>\<open>None\<close> raises \<^verbatim>\<open>TypeError\<close>; the progress bar of
  \<^verbatim>\<open>tqdm\<close> goes to the standard error and is left out.
\<close>

definition val_batch ::
  "('t, 'm, 'o, 'p, 'c) env \<Rightarrow> 't \<times> 't \<Rightarrow> pyfloat list \<Rightarrow> pyfloat list \<Rightarrow>
   ('t, 'm, 'o, 'v, 'c) trainer \<Rightarrow>
   (error + pyfloat list \<times> pyfloat list) \<times> ('t, 'm, 'o, 'v, 'c) trainer" where
  "val_batch e batch epoch_loss throughput s =
     (let (x, target) = batch;
          tic = perf_counter e (ticks s);
          s = tick s
      in case val_step e s x target of
           (Inl err, s) \<Rightarrow> (Inl err, s)
         | (Inr loss, s) \<Rightarrow>
             let toc = perf_counter e (ticks s);
                 s = tick s;
                 epoch_loss = epoch_loss @ [item e loss]
             in case py_truediv (shape0 e x) (toc - tic) of
                  Inl err \<Rightarrow> (Inl err, s)
                | Inr tp \<Rightarrow> (Inr (epoch_loss, throughput @ [tp]), s))"

fun val_batches ::
  "('t, 'm, 'o, 'p, 'c) env \<Rightarrow> ('t \<times> 't) list \<Rightarrow> pyfloat list \<Rightarrow> pyfloat list \<Rightarrow>
   ('t, 'm, 'o, 'v, 'c) trainer \<Rightarrow>
   (error + pyfloat list \<times> pyfloat list) \<times> ('t, 'm, 'o, 'v, 'c) trainer" where
  "val_batches e [] epoch_loss throughput s = (Inr (epoch_loss, throughput), s)"
| "val_batches e (batch # rest) epoch_loss throughput s =
     (case val_batch e batch epoch_loss throughput s of
        (Inl err, s) \<Rightarrow> (Inl err, s)
      | (Inr (epoch_loss, throughput), s) \<Rightarrow> val_batches e rest epoch_loss throughput s)"

definition val_epoch ::
  "('t, 'm, 'o, 'p, 'c) env \<Rightarrow> ('t, 'm, 'o, 'v, 'c) trainer \<Rightarrow>
   (error + pyfloat \<times> pyfloat \<times> pyfloat) \<times> ('t, 'm, 'o, 'v, 'c) trainer" where
  "val_epoch e s =
     (let s = trace (ValPhase (val_acc s)) s;
          s = s\<lparr>model := model_eval e (model s)\<rparr>
      in case val_loader s of
           None \<Rightarrow> (Inl TypeError, s)
         | Some batches \<Rightarrow>
             (case val_batches e batches [] [] s of
                (Inl err, s) \<Rightarrow> (Inl err, s)
              | (Inr (epoch_loss, throughput), s) \<Rightarrow>
                  let epoch_acc = acc_compute e (val_acc s);
                      s = s\<lparr>val_acc := acc_reset (val_acc s)\<rparr>
                  in (Inr (np_mean epoch_loss, epoch_acc, np_mean throughput), s)))"

subsection \<open>The run\<close>

text \<open>
  The checkpoint part of an epoch, which the source writes twice (once with the metrics of
  the validation, once with those of the training): nothing when no policy is configured,
  else one call of \<^verbatim>\<open>step\<close> and, when \<^verbatim>\<open>patience_over\<close> reads true after it, two lines
  and \<^verbatim>\<open>quit()\<close>, which raises \<^verbatim>\<open>SystemExit\<close>.
\<close>

definition checkpoint ::
  "('t, 'm, 'o, 'p, 'c) env \<Rightarrow> nat \<Rightarrow> (string \<times> pyfloat) list \<Rightarrow>
   ('t, 'm, 'o, 'v, 'c) trainer \<Rightarrow> (error + unit) \<times> ('t, 'm, 'o, 'v, 'c) trainer" where
  "checkpoint e epoch metrics s =
     (case model_checkpoint s of
        None \<Rightarrow> (Inr (), s)
      | Some c \<Rightarrow>
          let c = ckpt_step e c epoch metrics (get_weights e (model s));
              s = trace (CkptStep epoch metrics (patience_over e c))
                    (s\<lparr>model_checkpoint := Some c\<rparr>)
          in if patience_over e c
             then (Inl SystemExit, print (EarlyStopping epoch) (print Stars s))
             else (Inr (), s))"

text \<open>The body of the loop of \<^verbatim>\<open>train\<close>, for one epoch.\<close>

definition run_epoch ::
  "('t, 'm, 'o, 'p, 'c) env \<Rightarrow> nat \<Rightarrow> ('t, 'm, 'o, 'v, 'c) trainer \<Rightarrow>
   (error + unit) \<times> ('t, 'm, 'o, 'v, 'c) trainer" where
  "run_epoch e epoch s =
     (let s = print (EpochHeader epoch (max_epochs s)) s;
          tic = perf_counter e (ticks s);
          s = tick s
      in case train_epoch e s of
           (Inl err, s) \<Rightarrow> (Inl err, s)
         | (Inr (train_loss, train_accuracy, train_throughput), s) \<Rightarrow>
             let toc = perf_counter e (ticks s);
                 s = tick s;
                 s = print (TrainSummary (toc - tic) train_loss train_accuracy train_throughput) s
             in case
                  (if val_loader s \<noteq> None
                   then (case val_epoch e (print RunningValidation s) of
                           (Inl err, s) \<Rightarrow> (Inl err, s)
                         | (Inr (val_loss, val_accuracy, val_throughput), s) \<Rightarrow>
                             checkpoint e epoch
                               [(''val_loss'', val_loss), (''val_acc'', val_accuracy)]
                               (print (ValSummary val_loss val_accuracy val_throughput) s))
                   else checkpoint e epoch
                          [(''train_loss'', train_loss), (''train_acc'', train_accuracy)] s)
                of
                  (Inl err, s) \<Rightarrow> (Inl err, s)
                | (Inr u, s) \<Rightarrow> (Inr (), print Stars s))"

text \<open>The loop over \<^verbatim>\<open>range(self.max_epochs)\<close>, and \<^verbatim>\<open>train\<close>, which returns \<^verbatim>\<open>None\<close>.\<close>

fun run_epochs ::
  "('t, 'm, 'o, 'p, 'c) env \<Rightarrow> nat list \<Rightarrow> ('t, 'm, 'o, 'v, 'c) trainer \<Rightarrow>
   (error + unit) \<times> ('t, 'm, 'o, 'v, 'c) trainer" where
  "run_epochs e [] s = (Inr (), s)"
| "run_epochs e (epoch # rest) s =
     (case run_epoch e epoch s of
        (Inl err, s) \<Rightarrow> (Inl err, s)
      | (Inr u, s) \<Rightarrow> run_epochs e rest s)"

definition train ::
  "('t, 'm, 'o, 'p, 'c) env \<Rightarrow> ('t, 'm, 'o, 'v, 'c) trainer \<Rightarrow>
   (error + unit) \<times> ('t, 'm, 'o, 'v, 'c) trainer" where
  "train e s = run_epochs e [0 ..< nat (max_epochs s)] s"

subsection \<open>The values of the batches of one training phase\<close>

text \<open>
  What the training phase is to average, written without the loop's lists, its printing
  and its exceptions: for each batch in turn, the loss of the step (the number in the
  mean of the losses of the examples), the throughput (the size of the batch over the
  time between the two readings of the clock) and the update that the step sends to the
  accumulator; the next batch meets the model and the optimizer as the update of this
  one left them, two clock readings later.
\<close>

fun batch_stats ::
  "('t, 'm, 'o, 'p, 'c) env \<Rightarrow> ('t \<Rightarrow> 't \<Rightarrow> (string \<times> 'v) list \<Rightarrow> 't) \<Rightarrow> (string \<times> 'v) list \<Rightarrow>
   'm \<Rightarrow> 'o \<Rightarrow> nat \<Rightarrow> ('t \<times> 't) list \<Rightarrow> (pyfloat \<times> pyfloat \<times> 't \<times> 't) list" where
  "batch_stats e lf kwargs m opt n [] = []"
| "batch_stats e lf kwargs m opt n ((x, target) # rest) =
     (item e (mx_mean e (lf (forward e m x) target kwargs)),
      Fl (of_nat (shape0 e x) / (perf_counter e (Suc n) - perf_counter e n)),
      (forward e m x, target))
     # batch_stats e lf kwargs
         (snd (opt_update e opt m (grad e m x target)))
         (fst (opt_update e opt m (grad e m x target)))
         (Suc (Suc n)) rest"

text \<open>The progress lines among the printed lines.\<close>

fun progress_line :: "'t line \<Rightarrow> bool" where
  "progress_line (IterLine i n l tp lr) = True"
| "progress_line other = False"

subsection \<open>A small instance\<close>

text \<open>
  A concrete set of collaborators, to run the definitions: arrays are lists of rationals,
  the model is the identity, every example has loss 1 (a scalar is a list of one number,
  and the mean of no number is the empty list, which reads as \<open>NaN\<close>), the clock
  advances by one second at each reading, the accuracy is the number of updates, and the
  checkpoint policy counts the calls of \<^verbatim>\<open>step\<close> and runs out of patience at the
  second.
\<close>

definition demo_env :: "(rat list, unit, unit, unit, nat) env" where
  "demo_env =
     \<lparr> forward = (\<lambda>m x. x),
       model_train = (\<lambda>m. m),
       model_eval = (\<lambda>m. m),
       grad = (\<lambda>m x target. ()),
       opt_update = (\<lambda>opt m g. (opt, m)),
       learning_rate = (\<lambda>opt. [1 / 100]),
       mx_mean = (\<lambda>xs. if xs = [] then [] else [sum_list xs / of_nat (length xs)]),
       item = (\<lambda>xs. case xs of [v] \<Rightarrow> Fl v | _ \<Rightarrow> NaN),
       shape0 = length,
       get_weights = (\<lambda>m. ()),
       ckpt_step = (\<lambda>c epoch metrics w. Suc c),
       patience_over = (\<lambda>c. 2 \<le> c),
       acc_compute = (\<lambda>a. Fl (of_nat (length a))),
       perf_counter = of_nat \<rparr>"


definition demo_loss :: "rat list \<Rightarrow> rat list \<Rightarrow> (string \<times> unit) list \<Rightarrow> rat list" where
  "demo_loss logits target kwargs = map (\<lambda>_. 1) logits"

text \<open>A batch of four examples.\<close>

definition demo_batch :: "rat list \<times> rat list" where
  "demo_batch = ([0, 0, 0, 0], [0, 0, 0, 0])"

text \<open>
  A trainer over \<open>n\<close> copies of the batch, with log fraction \<open>f\<close>, the keyword
  arguments \<open>kw\<close>, the validation loader \<open>vl\<close>, the policy \<open>ck\<close> and
  \<^verbatim>\<open>max_epochs\<close> \<open>me\<close>.
\<close>

definition demo_trainer ::
  "nat \<Rightarrow> rat \<Rightarrow> (string \<times> unit) list option \<Rightarrow> (rat list \<times> rat list) list option \<Rightarrow>
   nat option \<Rightarrow> int \<Rightarrow> (rat list, unit, unit, unit, nat) trainer" where
  "demo_trainer n f kw vl ck me = init () () demo_loss (replicate n demo_batch) kw vl f me ck"

subsection \<open>What the phases leave alone\<close>

text \<open>
  The fields that no method assigns after \<^verbatim>\<open>__init__\<close>: two states with the same
  setup differ at most in the model, the optimizer, the policy, the accumulators, the
  clock and the two logs.
\<close>

definition same_setup ::
  "('t, 'm, 'o, 'v, 'c) trainer \<Rightarrow> ('t, 'm, 'o, 'v, 'c) trainer \<Rightarrow> bool" where
  "same_setup s s' \<longleftrightarrow>
     loss_fn s' = loss_fn s \<and> loss_fn_args s' = loss_fn_args s \<and>
     train_loader s' = train_loader s \<and> val_loader s' = val_loader s \<and>
     log_every s' = log_every s \<and> max_epochs s' = max_epochs s"

text \<open>The entries of the trace that are the start of a training phase.\<close>

fun training_phase :: "'t call \<Rightarrow> bool" where
  "training_phase (TrainPhase a) = True"
| "training_phase other = False"

text \<open>The keys of the metrics dictionary that the checkpoint policy is to receive.\<close>

definition metric_keys :: "('t \<times> 't) list option \<Rightarrow> string list" where
  "metric_keys vl =
     (if vl = None then [''train_loss'', ''train_acc''] else [''val_loss'', ''val_acc''])"

section \<open>The step functions\<close>

text \<open>
  Claim C8. When the extra parameters of the loss function are configured (a mapping
  \<open>kwargs\<close>), the training step returns \<^verbatim>\<open>mx.mean\<close> of the losses that the loss
  function gives on the predictions of the forward pass, the targets and \<open>kwargs\<close>; the
  state it leaves differs from the one it found only in the training accumulator, which
  has received one update: the predictions as the forward pass returned them, and the
  targets.
\<close>

theorem train_step_mean_loss_one_update:
  "loss_fn_args s = Some kwargs \<Longrightarrow>
   train_step e s x target =
     (Inr (mx_mean e (loss_fn s (forward e (model s) x) target kwargs)),
      s\<lparr>train_acc := acc_update (train_acc s) (forward e (model s) x) target\<rparr>)
   \<and> acc_update (train_acc s) (forward e (model s) x) target =
       train_acc s @ [(forward e (model s) x, target)]"
  by (simp add: train_step_def acc_update_def Let_def)

theorem train_step_mean_loss_one_update_witness:
  "loss_fn_args (demo_trainer 3 (1 / 3) (Some []) None None 10) = Some []
   \<and> fst (train_step demo_env (demo_trainer 3 (1 / 3) (Some []) None None 10) [5, 6] [7, 8])
       = Inr [1]
   \<and> train_acc (snd (train_step demo_env (demo_trainer 3 (1 / 3) (Some []) None None 10)
        [5, 6] [7, 8])) = [([5, 6], [7, 8])]"
proof -
  have h: "loss_fn_args (demo_trainer 3 (1 / 3) (Some []) None None 10) = Some []"
    by (simp add: demo_trainer_def init_def)
  show ?thesis
    using train_step_mean_loss_one_update [OF h, of demo_env "[5, 6]" "[7, 8]"]
    by (simp add: h demo_trainer_def init_def demo_env_def demo_loss_def Accuracy_def
          acc_update_def)
qed

text \<open>
  Claim C10. A trainer built with \<^verbatim>\<open>loss_fn_args\<close> left at \<^verbatim>\<open>None\<close> has that field
  \<^verbatim>\<open>None\<close>, and in any state where it is \<^verbatim>\<open>None\<close> the training step and the
  validation step raise \<^verbatim>\<open>TypeError\<close> and leave the state as it was: no loss, no update
  of an accumulator. With the empty mapping both steps return their loss.
\<close>

theorem steps_raise_TypeError_without_loss_fn_args:
  "loss_fn_args (init m opt lf batches None vl f me ck) = None
   \<and> (loss_fn_args s = None \<longrightarrow>
        train_step e s x target = (Inl TypeError, s) \<and>
        val_step e s x target = (Inl TypeError, s))
   \<and> (loss_fn_args s = Some [] \<longrightarrow>
        fst (train_step e s x target)
          = Inr (mx_mean e (loss_fn s (forward e (model s) x) target [])) \<and>
        fst (val_step e s x target)
          = Inr (mx_mean e (loss_fn s (forward e (model s) x) target [])))"
  by (simp add: train_step_def val_step_def init_def Let_def)

theorem steps_raise_TypeError_without_loss_fn_args_witness:
  "loss_fn_args (demo_trainer 3 (1 / 3) None None None 10) = None
   \<and> fst (train_step demo_env (demo_trainer 3 (1 / 3) None None None 10) [5, 6] [7, 8])
       = Inl TypeError
   \<and> fst (val_step demo_env (demo_trainer 3 (1 / 3) None None None 10) [5, 6] [7, 8])
       = Inl TypeError
   \<and> loss_fn_args (demo_trainer 3 (1 / 3) (Some []) None None 10) = Some []
   \<and> fst (train_step demo_env (demo_trainer 3 (1 / 3) (Some []) None None 10) [5, 6] [7, 8])
       = Inr [1]
   \<and> fst (val_step demo_env (demo_trainer 3 (1 / 3) (Some []) None None 10) [5, 6] [7, 8])
       = Inr [1]"
proof -
  have n: "loss_fn_args (demo_trainer 3 (1 / 3) None None None 10) = None"
    and k: "loss_fn_args (demo_trainer 3 (1 / 3) (Some []) None None 10) = Some []"
    by (simp_all add: demo_trainer_def init_def)
  show ?thesis
    using steps_raise_TypeError_without_loss_fn_args
            [of _ _ _ _ _ _ _ _ "demo_trainer 3 (1 / 3) None None None 10" demo_env
                "[5, 6]" "[7, 8]"]
          steps_raise_TypeError_without_loss_fn_args
            [of _ _ _ _ _ _ _ _ "demo_trainer 3 (1 / 3) (Some []) None None 10" demo_env
                "[5, 6]" "[7, 8]"]
    by (simp add: n k demo_trainer_def init_def demo_env_def demo_loss_def)
qed

section \<open>Frame properties of the phases\<close>

text \<open>
  What a batch, a phase and the checkpoint part leave unchanged, what they append to the
  trace, and that only the checkpoint part raises \<^verbatim>\<open>SystemExit\<close>.
\<close>

lemma train_batch_frame:
  "train_batch e i b ls ts s = (r, s') \<Longrightarrow>
   same_setup s s' \<and> calls s' = calls s \<and> val_acc s' = val_acc s \<and>
   model_checkpoint s' = model_checkpoint s \<and> r \<noteq> Inl SystemExit"
  by (auto simp: train_batch_def train_step_def Let_def tick_def print_def py_truediv_def
        py_mod_def same_setup_def split: prod.splits sum.splits option.splits if_splits)

lemma same_setup_refl: "same_setup s s"
  by (simp add: same_setup_def)

lemma same_setup_trans: "same_setup s s' \<Longrightarrow> same_setup s' s'' \<Longrightarrow> same_setup s s''"
  by (simp add: same_setup_def)

lemma train_batches_frame:
  "train_batches e i bs ls ts s = (r, s') \<Longrightarrow>
   same_setup s s' \<and> calls s' = calls s \<and> val_acc s' = val_acc s \<and>
   model_checkpoint s' = model_checkpoint s \<and> r \<noteq> Inl SystemExit"
proof (induction bs arbitrary: i ls ts s)
  case Nil
  then show ?case by (auto simp: same_setup_refl)
next
  case (Cons b bs)
  obtain r1 s1 where b: "train_batch e i b ls ts s = (r1, s1)"
    by (cases "train_batch e i b ls ts s")
  note f = train_batch_frame [OF b]
  show ?case
  proof (cases r1)
    case (Inl err)
    with Cons.prems b f show ?thesis by auto
  next
    case (Inr p)
    obtain ls1 ts1 where p: "p = (ls1, ts1)" by (cases p)
    from Cons.prems b Inr p have "train_batches e (Suc i) bs ls1 ts1 s1 = (r, s')"
      by simp
    from Cons.IH [OF this] f show ?thesis
      by (auto intro: same_setup_trans)
  qed
qed

lemma train_epoch_frame:
  "train_epoch e s = (r, s') \<Longrightarrow>
   same_setup s s' \<and> calls s' = calls s @ [TrainPhase (train_acc s)] \<and>
   val_acc s' = val_acc s \<and> model_checkpoint s' = model_checkpoint s \<and>
   r \<noteq> Inl SystemExit \<and> (\<forall>v. r = Inr v \<longrightarrow> train_acc s' = [])"
  by (auto simp: train_epoch_def Let_def trace_def acc_reset_def same_setup_def
        split: prod.splits sum.splits dest!: train_batches_frame)

lemma val_batch_frame:
  "val_batch e b ls ts s = (r, s') \<Longrightarrow>
   same_setup s s' \<and> calls s' = calls s \<and> train_acc s' = train_acc s \<and>
   model_checkpoint s' = model_checkpoint s \<and> r \<noteq> Inl SystemExit"
  by (auto simp: val_batch_def val_step_def Let_def tick_def py_truediv_def
        same_setup_def split: prod.splits sum.splits option.splits if_splits)

lemma val_batches_frame:
  "val_batches e bs ls ts s = (r, s') \<Longrightarrow>
   same_setup s s' \<and> calls s' = calls s \<and> train_acc s' = train_acc s \<and>
   model_checkpoint s' = model_checkpoint s \<and> r \<noteq> Inl SystemExit"
proof (induction bs arbitrary: ls ts s)
  case Nil
  then show ?case by (auto simp: same_setup_refl)
next
  case (Cons b bs)
  obtain r1 s1 where b: "val_batch e b ls ts s = (r1, s1)"
    by (cases "val_batch e b ls ts s")
  note f = val_batch_frame [OF b]
  show ?case
  proof (cases r1)
    case (Inl err)
    with Cons.prems b f show ?thesis by auto
  next
    case (Inr p)
    obtain ls1 ts1 where p: "p = (ls1, ts1)" by (cases p)
    from Cons.prems b Inr p have "val_batches e bs ls1 ts1 s1 = (r, s')"
      by simp
    from Cons.IH [OF this] f show ?thesis
      by (auto intro: same_setup_trans)
  qed
qed

lemma val_epoch_frame:
  "val_epoch e s = (r, s') \<Longrightarrow>
   same_setup s s' \<and> calls s' = calls s @ [ValPhase (val_acc s)] \<and>
   train_acc s' = train_acc s \<and> model_checkpoint s' = model_checkpoint s \<and>
   r \<noteq> Inl SystemExit \<and> (\<forall>v. r = Inr v \<longrightarrow> val_acc s' = [])"
  by (auto simp: val_epoch_def Let_def trace_def acc_reset_def same_setup_def
        split: prod.splits sum.splits option.splits dest!: val_batches_frame)

lemma checkpoint_frame:
  "checkpoint e k m s = (r, s') \<Longrightarrow>
   same_setup s s' \<and> train_acc s' = train_acc s \<and> val_acc s' = val_acc s \<and>
   (model_checkpoint s = None \<longrightarrow> r = Inr () \<and> calls s' = calls s \<and> model_checkpoint s' = None) \<and>
   (\<forall>c. model_checkpoint s = Some c \<longrightarrow>
      calls s' = calls s @ [CkptStep k m (patience_over e (ckpt_step e c k m (get_weights e (model s))))] \<and>
      r = (if patience_over e (ckpt_step e c k m (get_weights e (model s))) then Inl SystemExit else Inr ()) \<and>
      model_checkpoint s' = Some (ckpt_step e c k m (get_weights e (model s))))"
  by (auto simp: checkpoint_def Let_def trace_def print_def same_setup_def
        split: option.splits if_splits)

lemma run_epoch_train_raises:
  "train_epoch e (tick (print (EpochHeader k (max_epochs s)) s)) = (Inl err, s1) \<Longrightarrow>
   run_epoch e k s = (Inl err, s1)"
  by (simp add: run_epoch_def Let_def)

lemma run_epoch_no_val:
  "train_epoch e (tick (print (EpochHeader k (max_epochs s)) s)) = (Inr (tloss, tacc, ttp), s1) \<Longrightarrow>
   val_loader s1 = None \<Longrightarrow>
   checkpoint e k [(''train_loss'', tloss), (''train_acc'', tacc)]
     (print (TrainSummary (perf_counter e (ticks s1) - perf_counter e (ticks s)) tloss tacc ttp) (tick s1))
     = (r, s2) \<Longrightarrow>
   run_epoch e k s = (case r of Inl err \<Rightarrow> (Inl err, s2) | Inr u \<Rightarrow> (Inr (), print Stars s2))"
  by (simp add: run_epoch_def Let_def print_def tick_def split: sum.splits)

lemma run_epoch_val_raises:
  "train_epoch e (tick (print (EpochHeader k (max_epochs s)) s)) = (Inr (tloss, tacc, ttp), s1) \<Longrightarrow>
   val_loader s1 \<noteq> None \<Longrightarrow>
   val_epoch e (print RunningValidation
     (print (TrainSummary (perf_counter e (ticks s1) - perf_counter e (ticks s)) tloss tacc ttp) (tick s1)))
     = (Inl err, s2) \<Longrightarrow>
   run_epoch e k s = (Inl err, s2)"
  by (simp add: run_epoch_def Let_def print_def tick_def split: sum.splits)

lemma run_epoch_val:
  "train_epoch e (tick (print (EpochHeader k (max_epochs s)) s)) = (Inr (tloss, tacc, ttp), s1) \<Longrightarrow>
   val_loader s1 \<noteq> None \<Longrightarrow>
   val_epoch e (print RunningValidation
     (print (TrainSummary (perf_counter e (ticks s1) - perf_counter e (ticks s)) tloss tacc ttp) (tick s1)))
     = (Inr (vloss, vacc, vtp), s2) \<Longrightarrow>
   checkpoint e k [(''val_loss'', vloss), (''val_acc'', vacc)] (print (ValSummary vloss vacc vtp) s2) = (r, s3) \<Longrightarrow>
   run_epoch e k s = (case r of Inl err \<Rightarrow> (Inl err, s3) | Inr u \<Rightarrow> (Inr (), print Stars s3))"
  by (simp add: run_epoch_def Let_def print_def tick_def split: sum.splits)

lemma same_setup_val_loader: "same_setup s s' \<Longrightarrow> val_loader s' = val_loader s"
  by (simp add: same_setup_def)

lemma run_epoch_shape:
  assumes "run_epoch e k s = (r, s')"
  shows "same_setup s s' \<and> (model_checkpoint s' = None \<longleftrightarrow> model_checkpoint s = None) \<and>
     (\<exists>new. calls s' = calls s @ TrainPhase (train_acc s) # new \<and>
        ((\<exists>err. r = Inl err \<and> err \<noteq> SystemExit \<and>
                (new = [] \<or> (new = [ValPhase (val_acc s)] \<and> val_loader s \<noteq> None)))
       \<or> (model_checkpoint s = None \<and> r = Inr () \<and> train_acc s' = [] \<and>
            (if val_loader s = None then new = [] \<and> val_acc s' = val_acc s
             else new = [ValPhase (val_acc s)] \<and> val_acc s' = []))
       \<or> (\<exists>m fl. model_checkpoint s \<noteq> None \<and> r = (if fl then Inl SystemExit else Inr ()) \<and>
            train_acc s' = [] \<and>
            (if val_loader s = None
             then new = [CkptStep k m fl] \<and> map fst m = [''train_loss'', ''train_acc''] \<and>
                  val_acc s' = val_acc s
             else new = [ValPhase (val_acc s), CkptStep k m fl] \<and>
                  map fst m = [''val_loss'', ''val_acc''] \<and> val_acc s' = []))))"
proof -
  let ?s0 = "tick (print (EpochHeader k (max_epochs s)) s)"
  have s0: "same_setup s ?s0" "calls ?s0 = calls s" "train_acc ?s0 = train_acc s"
    "val_acc ?s0 = val_acc s" "model_checkpoint ?s0 = model_checkpoint s"
    by (simp_all add: tick_def print_def same_setup_def)
  obtain r1 s1 where t: "train_epoch e ?s0 = (r1, s1)"
    by (cases "train_epoch e ?s0")
  from train_epoch_frame [OF t] s0
  have f1: "same_setup s s1" "calls s1 = calls s @ [TrainPhase (train_acc s)]"
    "val_acc s1 = val_acc s" "model_checkpoint s1 = model_checkpoint s"
    "r1 \<noteq> Inl SystemExit" "\<And>v. r1 = Inr v \<Longrightarrow> train_acc s1 = []"
    by (auto intro: same_setup_trans)
  show ?thesis
  proof (cases r1)
    case (Inl err)
    with t have "run_epoch e k s = (Inl err, s1)"
      by (simp add: run_epoch_train_raises)
    with assms have "r = Inl err" "s' = s1" by simp_all
    with f1 Inl show ?thesis by auto
  next
    case (Inr v)
    obtain tloss tacc ttp where v: "v = (tloss, tacc, ttp)" by (cases v)
    from t Inr v have t': "train_epoch e ?s0 = (Inr (tloss, tacc, ttp), s1)" by simp
    let ?s2 = "print (TrainSummary (perf_counter e (ticks s1) - perf_counter e (ticks s))
                 tloss tacc ttp) (tick s1)"
    from f1 Inr
    have f2: "same_setup s ?s2" "calls ?s2 = calls s @ [TrainPhase (train_acc s)]"
      "val_acc ?s2 = val_acc s" "model_checkpoint ?s2 = model_checkpoint s" "train_acc ?s2 = []"
      by (simp_all add: tick_def print_def same_setup_def)
    have vl1: "val_loader s1 = val_loader s"
      using f1(1) by (rule same_setup_val_loader)
    show ?thesis
    proof (cases "val_loader s")
      case None
      obtain r3 s3 where c: "checkpoint e k [(''train_loss'', tloss), (''train_acc'', tacc)] ?s2 = (r3, s3)"
        by (cases "checkpoint e k [(''train_loss'', tloss), (''train_acc'', tacc)] ?s2")
      from None vl1 have "val_loader s1 = None" by simp
      from run_epoch_no_val [OF t' this c] assms
      have rs: "(r, s') = (case r3 of Inl err \<Rightarrow> (Inl err, s3) | Inr u \<Rightarrow> (Inr (), print Stars s3))"
        by simp
      note f3 = checkpoint_frame [OF c]
      show ?thesis
      proof (cases "model_checkpoint s")
        case None
        with f3 f2 have "r3 = Inr ()" "calls s3 = calls ?s2" "model_checkpoint s3 = None"
          "same_setup ?s2 s3" "train_acc s3 = train_acc ?s2" "val_acc s3 = val_acc ?s2"
          by simp_all
        with rs f2 None \<open>val_loader s = None\<close> show ?thesis
          by (auto simp: print_def same_setup_def)
      next
        case (Some c0)
        let ?fl = "patience_over e (ckpt_step e c0 k [(''train_loss'', tloss), (''train_acc'', tacc)]
                     (get_weights e (model ?s2)))"
        from Some f3 f2 have g: "calls s3 = calls ?s2 @ [CkptStep k [(''train_loss'', tloss), (''train_acc'', tacc)] ?fl]"
          "r3 = (if ?fl then Inl SystemExit else Inr ())" "model_checkpoint s3 \<noteq> None"
          "same_setup ?s2 s3" "train_acc s3 = train_acc ?s2" "val_acc s3 = val_acc ?s2"
          by simp_all
        have "calls s' = calls s @ [TrainPhase (train_acc s), CkptStep k [(''train_loss'', tloss), (''train_acc'', tacc)] ?fl]"
          "r = (if ?fl then Inl SystemExit else Inr ())" "model_checkpoint s' \<noteq> None"
          "same_setup s s'" "train_acc s' = []" "val_acc s' = val_acc s"
          using rs g f2 by (auto simp: print_def same_setup_def split: if_splits)
        with Some \<open>val_loader s = None\<close> show ?thesis
          by auto
      qed
    next
      case (Some bs)
      with vl1 have vl: "val_loader s1 \<noteq> None" by simp
      obtain r2 s2 where va: "val_epoch e (print RunningValidation ?s2) = (r2, s2)"
        by (cases "val_epoch e (print RunningValidation ?s2)")
      from val_epoch_frame [OF va] f2
      have f2': "same_setup s s2" "calls s2 = calls s @ [TrainPhase (train_acc s), ValPhase (val_acc s)]"
        "train_acc s2 = []" "model_checkpoint s2 = model_checkpoint s"
        "r2 \<noteq> Inl SystemExit" "\<And>v. r2 = Inr v \<Longrightarrow> val_acc s2 = []"
        by (auto simp: print_def same_setup_def)
      show ?thesis
      proof (cases r2)
        case (Inl err)
        with va have "val_epoch e (print RunningValidation ?s2) = (Inl err, s2)" by simp
        from run_epoch_val_raises [OF t' vl this] assms have "r = Inl err" "s' = s2" by simp_all
        with f2' Inl Some show ?thesis by auto
      next
        case (Inr w)
        obtain vloss vacc vtp where w: "w = (vloss, vacc, vtp)" by (cases w)
        from va Inr w have va': "val_epoch e (print RunningValidation ?s2) = (Inr (vloss, vacc, vtp), s2)"
          by simp
        let ?s3 = "print (ValSummary vloss vacc vtp) s2"
        from f2' Inr
        have f3: "same_setup s ?s3" "calls ?s3 = calls s @ [TrainPhase (train_acc s), ValPhase (val_acc s)]"
          "train_acc ?s3 = []" "model_checkpoint ?s3 = model_checkpoint s" "val_acc ?s3 = []"
          by (simp_all add: print_def same_setup_def)
        obtain r4 s4 where c: "checkpoint e k [(''val_loss'', vloss), (''val_acc'', vacc)] ?s3 = (r4, s4)"
          by (cases "checkpoint e k [(''val_loss'', vloss), (''val_acc'', vacc)] ?s3")
        from run_epoch_val [OF t' vl va' c] assms
        have rs: "(r, s') = (case r4 of Inl err \<Rightarrow> (Inl err, s4) | Inr u \<Rightarrow> (Inr (), print Stars s4))"
          by simp
        note f4 = checkpoint_frame [OF c]
        show ?thesis
        proof (cases "model_checkpoint s")
          case None
          with f4 f3 have "r4 = Inr ()" "calls s4 = calls ?s3" "model_checkpoint s4 = None"
            "same_setup ?s3 s4" "train_acc s4 = train_acc ?s3" "val_acc s4 = val_acc ?s3"
            by simp_all
          with rs f3 None \<open>val_loader s = Some bs\<close> show ?thesis
            by (auto simp: print_def same_setup_def)
        next
          case (Some c0)
          let ?fl = "patience_over e (ckpt_step e c0 k [(''val_loss'', vloss), (''val_acc'', vacc)]
                       (get_weights e (model ?s3)))"
          from Some f4 f3 have g: "calls s4 = calls ?s3 @ [CkptStep k [(''val_loss'', vloss), (''val_acc'', vacc)] ?fl]"
            "r4 = (if ?fl then Inl SystemExit else Inr ())" "model_checkpoint s4 \<noteq> None"
            "same_setup ?s3 s4" "train_acc s4 = train_acc ?s3" "val_acc s4 = val_acc ?s3"
            by simp_all
          have "calls s' = calls s @ [TrainPhase (train_acc s), ValPhase (val_acc s),
                  CkptStep k [(''val_loss'', vloss), (''val_acc'', vacc)] ?fl]"
            "r = (if ?fl then Inl SystemExit else Inr ())" "model_checkpoint s' \<noteq> None"
            "same_setup s s'" "train_acc s' = []" "val_acc s' = []"
            using rs g f3 by (auto simp: print_def same_setup_def split: if_splits)
          with Some \<open>val_loader s = Some bs\<close> show ?thesis
            by auto
        qed
      qed
    qed
  qed
qed

lemma run_epoch_stop:
  assumes "run_epoch e k s = (r, s')"
  shows "\<exists>new. calls s' = calls s @ new \<and>
     (r \<noteq> Inl SystemExit \<longrightarrow> (\<forall>j m. CkptStep j m True \<notin> set new)) \<and>
     (r = Inl SystemExit \<longrightarrow> (\<exists>pre m. new = pre @ [CkptStep k m True])) \<and>
     (\<forall>pre j m post. new = pre @ CkptStep j m True # post \<longrightarrow> post = [] \<and> r = Inl SystemExit) \<and>
     length (filter training_phase new) = 1"
proof -
  from run_epoch_shape [OF assms] obtain new where
    c: "calls s' = calls s @ TrainPhase (train_acc s) # new" and
    d: "(\<exists>err. r = Inl err \<and> err \<noteq> SystemExit \<and>
                (new = [] \<or> (new = [ValPhase (val_acc s)] \<and> val_loader s \<noteq> None)))
       \<or> (model_checkpoint s = None \<and> r = Inr () \<and> train_acc s' = [] \<and>
            (if val_loader s = None then new = [] \<and> val_acc s' = val_acc s
             else new = [ValPhase (val_acc s)] \<and> val_acc s' = []))
       \<or> (\<exists>m fl. model_checkpoint s \<noteq> None \<and> r = (if fl then Inl SystemExit else Inr ()) \<and>
            train_acc s' = [] \<and>
            (if val_loader s = None
             then new = [CkptStep k m fl] \<and> map fst m = [''train_loss'', ''train_acc''] \<and>
                  val_acc s' = val_acc s
             else new = [ValPhase (val_acc s), CkptStep k m fl] \<and>
                  map fst m = [''val_loss'', ''val_acc''] \<and> val_acc s' = []))"
    by blast
  have "(r \<noteq> Inl SystemExit \<longrightarrow> (\<forall>j m. CkptStep j m True \<notin> set (TrainPhase (train_acc s) # new))) \<and>
     (r = Inl SystemExit \<longrightarrow> (\<exists>pre m. TrainPhase (train_acc s) # new = pre @ [CkptStep k m True])) \<and>
     (\<forall>pre j m post. TrainPhase (train_acc s) # new = pre @ CkptStep j m True # post \<longrightarrow> post = [] \<and> r = Inl SystemExit) \<and>
     length (filter training_phase (TrainPhase (train_acc s) # new)) = 1"
    using d
    by (elim disjE exE conjE) (auto simp: Cons_eq_append_conv split: if_splits)
  with c show ?thesis by blast
qed

lemma split_after_clean_prefix:
  assumes "xs @ ys = pre @ x # post" and "x \<notin> set xs"
  shows "\<exists>pre'. pre = xs @ pre' \<and> ys = pre' @ x # post"
  using assms by (auto simp: append_eq_append_conv2 append_eq_Cons_conv)

lemma run_epochs_stop:
  "run_epochs e ks s = (r, s') \<Longrightarrow>
   \<exists>new. calls s' = calls s @ new \<and>
     (r \<noteq> Inl SystemExit \<longrightarrow> (\<forall>j m. CkptStep j m True \<notin> set new)) \<and>
     (r = Inl SystemExit \<longrightarrow> (\<exists>pre j m. new = pre @ [CkptStep j m True])) \<and>
     (\<forall>pre j m post. new = pre @ CkptStep j m True # post \<longrightarrow> post = [] \<and> r = Inl SystemExit) \<and>
     (\<forall>u. r = Inr u \<longrightarrow> length (filter training_phase new) = length ks)"
proof (induction ks arbitrary: s)
  case Nil
  then show ?case by auto
next
  case (Cons k ks)
  obtain r1 s1 where b: "run_epoch e k s = (r1, s1)"
    by (cases "run_epoch e k s")
  from run_epoch_stop [OF b] obtain new1 where
    n1: "calls s1 = calls s @ new1"
      "r1 \<noteq> Inl SystemExit \<longrightarrow> (\<forall>j m. CkptStep j m True \<notin> set new1)"
      "r1 = Inl SystemExit \<longrightarrow> (\<exists>pre m. new1 = pre @ [CkptStep k m True])"
      "\<forall>pre j m post. new1 = pre @ CkptStep j m True # post \<longrightarrow> post = [] \<and> r1 = Inl SystemExit"
      "length (filter training_phase new1) = 1"
    by blast
  show ?case
  proof (cases r1)
    case (Inl err)
    with Cons.prems b have "r = Inl err" "s' = s1" by simp_all
    with n1 Inl show ?thesis by auto
  next
    case (Inr u)
    with Cons.prems b have "run_epochs e ks s1 = (r, s')" by simp
    from Cons.IH [OF this] obtain new2 where
      n2: "calls s' = calls s1 @ new2"
        "r \<noteq> Inl SystemExit \<longrightarrow> (\<forall>j m. CkptStep j m True \<notin> set new2)"
        "r = Inl SystemExit \<longrightarrow> (\<exists>pre j m. new2 = pre @ [CkptStep j m True])"
        "\<forall>pre j m post. new2 = pre @ CkptStep j m True # post \<longrightarrow> post = [] \<and> r = Inl SystemExit"
        "\<forall>u. r = Inr u \<longrightarrow> length (filter training_phase new2) = length ks"
      by blast
    from Inr n1 have clean: "\<forall>j m. CkptStep j m True \<notin> set new1" by simp
    have "calls s' = calls s @ (new1 @ new2)" using n1 n2 by simp
    moreover have "r \<noteq> Inl SystemExit \<longrightarrow> (\<forall>j m. CkptStep j m True \<notin> set (new1 @ new2))"
      using clean n2 by simp
    moreover have "r = Inl SystemExit \<longrightarrow> (\<exists>pre j m. new1 @ new2 = pre @ [CkptStep j m True])"
    proof
      assume "r = Inl SystemExit"
      with n2 obtain pre j m where "new2 = pre @ [CkptStep j m True]" by blast
      then have "new1 @ new2 = (new1 @ pre) @ [CkptStep j m True]" by simp
      then show "\<exists>pre j m. new1 @ new2 = pre @ [CkptStep j m True]" by blast
    qed
    moreover have "\<forall>pre j m post. new1 @ new2 = pre @ CkptStep j m True # post \<longrightarrow>
        post = [] \<and> r = Inl SystemExit"
    proof (intro allI impI)
      fix pre j m post
      assume "new1 @ new2 = pre @ CkptStep j m True # post"
      from split_after_clean_prefix [OF this] clean
      obtain pre' where "new2 = pre' @ CkptStep j m True # post" by blast
      with n2 show "post = [] \<and> r = Inl SystemExit" by blast
    qed
    moreover have "\<forall>u. r = Inr u \<longrightarrow> length (filter training_phase (new1 @ new2)) = length (k # ks)"
      using n1 n2 by simp
    ultimately show ?thesis by blast
  qed
qed

section \<open>Early stopping\<close>

text \<open>
  Claim C4. In the trace of a run of \<^verbatim>\<open>train\<close>, a call of \<^verbatim>\<open>step\<close> after which
  \<^verbatim>\<open>patience_over\<close> read true is the last entry: no training phase, no validation phase
  and no call of \<^verbatim>\<open>step\<close> follows it, in its epoch or in a later one, and the run has
  ended by the \<^verbatim>\<open>SystemExit\<close> of \<^verbatim>\<open>quit()\<close>.
\<close>

theorem early_stop_ends_the_run:
  "calls (snd (train e s)) = calls s @ pre @ CkptStep k m True # post \<Longrightarrow>
   post = [] \<and> fst (train e s) = Inl SystemExit"
proof -
  assume a: "calls (snd (train e s)) = calls s @ pre @ CkptStep k m True # post"
  obtain r s' where t: "run_epochs e [0 ..< nat (max_epochs s)] s = (r, s')"
    by (cases "run_epochs e [0 ..< nat (max_epochs s)] s")
  from run_epochs_stop [OF t] obtain new where
    n: "calls s' = calls s @ new"
      "\<forall>pre j m post. new = pre @ CkptStep j m True # post \<longrightarrow> post = [] \<and> r = Inl SystemExit"
    by blast
  from a t n have "new = pre @ CkptStep k m True # post" by (simp add: train_def)
  with n t show ?thesis by (simp add: train_def)
qed

theorem early_stop_ends_the_run_witness:
  "calls (snd (train demo_env (demo_trainer 3 (1 / 3) (Some []) None (Some 0) 10)))
     = calls (demo_trainer 3 (1 / 3) (Some []) None (Some 0) 10)
       @ [TrainPhase [], CkptStep 0 [(''train_loss'', Fl 1), (''train_acc'', Fl 3)] False,
          TrainPhase []]
       @ CkptStep 1 [(''train_loss'', Fl 1), (''train_acc'', Fl 3)] True # []
   \<and> fst (train demo_env (demo_trainer 3 (1 / 3) (Some []) None (Some 0) 10)) = Inl SystemExit"
proof -
  have h: "calls (snd (train demo_env (demo_trainer 3 (1 / 3) (Some []) None (Some 0) 10)))
     = calls (demo_trainer 3 (1 / 3) (Some []) None (Some 0) 10)
       @ [TrainPhase [], CkptStep 0 [(''train_loss'', Fl 1), (''train_acc'', Fl 3)] False,
          TrainPhase []]
       @ CkptStep 1 [(''train_loss'', Fl 1), (''train_acc'', Fl 3)] True # []"
    by code_simp
  from early_stop_ends_the_run [OF h] h show ?thesis by simp
qed

text \<open>
  Claim C5 does not hold: \<^verbatim>\<open>train\<close> yields no outcome value. Its only return value is
  \<^verbatim>\<open>None\<close>, and on an early stop it does not return: \<^verbatim>\<open>quit()\<close> raises
  \<^verbatim>\<open>SystemExit\<close>, which ends the process. Here the policy runs out of patience at the
  second epoch of ten.
\<close>

theorem train_early_stop_yields_no_value:
  "fst (train demo_env (demo_trainer 3 (1 / 3) (Some []) None (Some 0) 10)) = Inl SystemExit
   \<and> (\<nexists>v. fst (train demo_env (demo_trainer 3 (1 / 3) (Some []) None (Some 0) 10)) = Inr v)"
proof -
  have "fst (train demo_env (demo_trainer 3 (1 / 3) (Some []) None (Some 0) 10)) = Inl SystemExit"
    by code_simp
  then show ?thesis by simp
qed

text \<open>
  Claim C5, amended. When \<^verbatim>\<open>train\<close> ends by \<^verbatim>\<open>SystemExit\<close>, the last thing it did was a
  call of \<^verbatim>\<open>step\<close> after which \<^verbatim>\<open>patience_over\<close> read true. When it returns (the value
  is \<^verbatim>\<open>None\<close>), no call of \<^verbatim>\<open>step\<close> was followed by a true reading and the training
  phase has run \<^verbatim>\<open>max_epochs\<close> times (no time when that number is negative). So the two
  ends differ in whether \<^verbatim>\<open>train\<close> returns, not in a value that it returns.
\<close>

theorem train_returns_None_or_exits:
  "(fst (train e s) = Inl SystemExit \<longrightarrow>
      (\<exists>pre k m. calls (snd (train e s)) = calls s @ pre @ [CkptStep k m True]))
   \<and> (fst (train e s) = Inr u \<longrightarrow>
      (\<exists>new. calls (snd (train e s)) = calls s @ new \<and>
         (\<forall>k m. CkptStep k m True \<notin> set new) \<and>
         int (length (filter training_phase new)) = max 0 (max_epochs s)))"
proof -
  obtain r s' where t: "run_epochs e [0 ..< nat (max_epochs s)] s = (r, s')"
    by (cases "run_epochs e [0 ..< nat (max_epochs s)] s")
  from run_epochs_stop [OF t] t show ?thesis
    by (auto simp: train_def)
qed

theorem train_returns_None_or_exits_witness:
  "fst (train demo_env (demo_trainer 3 (1 / 3) (Some []) None (Some 0) 10)) = Inl SystemExit
   \<and> (\<exists>pre k m. calls (snd (train demo_env (demo_trainer 3 (1 / 3) (Some []) None (Some 0) 10)))
         = calls (demo_trainer 3 (1 / 3) (Some []) None (Some 0) 10) @ pre @ [CkptStep k m True])
   \<and> fst (train demo_env (demo_trainer 3 (1 / 3) (Some []) None (Some 0) 1)) = Inr ()
   \<and> (\<exists>new. calls (snd (train demo_env (demo_trainer 3 (1 / 3) (Some []) None (Some 0) 1)))
         = calls (demo_trainer 3 (1 / 3) (Some []) None (Some 0) 1) @ new \<and>
         (\<forall>k m. CkptStep k m True \<notin> set new) \<and>
         int (length (filter training_phase new))
           = max 0 (max_epochs (demo_trainer 3 (1 / 3) (Some []) None (Some 0) 1)))"
proof -
  have h1: "fst (train demo_env (demo_trainer 3 (1 / 3) (Some []) None (Some 0) 10))
      = Inl SystemExit"
    by code_simp
  have h2: "fst (train demo_env (demo_trainer 3 (1 / 3) (Some []) None (Some 0) 1)) = Inr ()"
    by code_simp
  from train_returns_None_or_exits
         [of demo_env "demo_trainer 3 (1 / 3) (Some []) None (Some 0) 10" "()"]
       train_returns_None_or_exits
         [of demo_env "demo_trainer 3 (1 / 3) (Some []) None (Some 0) 1" "()"]
       h1 h2
  show ?thesis by simp
qed

section \<open>The metrics passed to the checkpoint policy\<close>

lemma run_epoch_keys:
  assumes "run_epoch e k s = (r, s')"
  shows "\<exists>new. calls s' = calls s @ new \<and> same_setup s s' \<and>
     (\<forall>j m fl. CkptStep j m fl \<in> set new \<longrightarrow> map fst m = metric_keys (val_loader s))"
proof -
  from run_epoch_shape [OF assms] obtain new where
    c: "calls s' = calls s @ TrainPhase (train_acc s) # new" and ss: "same_setup s s'" and
    d: "(\<exists>err. r = Inl err \<and> err \<noteq> SystemExit \<and>
                (new = [] \<or> (new = [ValPhase (val_acc s)] \<and> val_loader s \<noteq> None)))
       \<or> (model_checkpoint s = None \<and> r = Inr () \<and> train_acc s' = [] \<and>
            (if val_loader s = None then new = [] \<and> val_acc s' = val_acc s
             else new = [ValPhase (val_acc s)] \<and> val_acc s' = []))
       \<or> (\<exists>m fl. model_checkpoint s \<noteq> None \<and> r = (if fl then Inl SystemExit else Inr ()) \<and>
            train_acc s' = [] \<and>
            (if val_loader s = None
             then new = [CkptStep k m fl] \<and> map fst m = [''train_loss'', ''train_acc''] \<and>
                  val_acc s' = val_acc s
             else new = [ValPhase (val_acc s), CkptStep k m fl] \<and>
                  map fst m = [''val_loss'', ''val_acc''] \<and> val_acc s' = []))"
    by blast
  have "\<forall>j m fl. CkptStep j m fl \<in> set (TrainPhase (train_acc s) # new) \<longrightarrow>
        map fst m = metric_keys (val_loader s)"
    using d by (elim disjE exE conjE) (auto simp: metric_keys_def split: if_splits)
  with c ss show ?thesis by blast
qed

lemma run_epochs_keys:
  "run_epochs e ks s = (r, s') \<Longrightarrow>
   \<exists>new. calls s' = calls s @ new \<and> same_setup s s' \<and>
     (\<forall>j m fl. CkptStep j m fl \<in> set new \<longrightarrow> map fst m = metric_keys (val_loader s))"
proof (induction ks arbitrary: s)
  case Nil
  then show ?case by (auto simp: same_setup_refl)
next
  case (Cons k ks)
  obtain r1 s1 where b: "run_epoch e k s = (r1, s1)"
    by (cases "run_epoch e k s")
  from run_epoch_keys [OF b] obtain new1 where
    n1: "calls s1 = calls s @ new1" "same_setup s s1"
      "\<forall>j m fl. CkptStep j m fl \<in> set new1 \<longrightarrow> map fst m = metric_keys (val_loader s)"
    by blast
  show ?case
  proof (cases r1)
    case (Inl err)
    with Cons.prems b have "r = Inl err" "s' = s1" by simp_all
    with n1 show ?thesis by blast
  next
    case (Inr u)
    with Cons.prems b have "run_epochs e ks s1 = (r, s')" by simp
    from Cons.IH [OF this] obtain new2 where
      n2: "calls s' = calls s1 @ new2" "same_setup s1 s'"
        "\<forall>j m fl. CkptStep j m fl \<in> set new2 \<longrightarrow> map fst m = metric_keys (val_loader s1)"
      by blast
    have vl: "val_loader s1 = val_loader s"
      using n1(2) by (rule same_setup_val_loader)
    have "calls s' = calls s @ (new1 @ new2)" using n1 n2 by simp
    moreover have "same_setup s s'" using n1 n2 by (blast intro: same_setup_trans)
    moreover have "\<forall>j m fl. CkptStep j m fl \<in> set (new1 @ new2) \<longrightarrow>
          map fst m = metric_keys (val_loader s)"
    proof (intro allI impI)
      fix j m fl
      assume "CkptStep j m fl \<in> set (new1 @ new2)"
      then have "CkptStep j m fl \<in> set new1 \<or> CkptStep j m fl \<in> set new2" by simp
      then show "map fst m = metric_keys (val_loader s)"
      proof
        assume "CkptStep j m fl \<in> set new1"
        with n1(3) show ?thesis by blast
      next
        assume "CkptStep j m fl \<in> set new2"
        with n2(3) have "map fst m = metric_keys (val_loader s1)" by blast
        with vl show ?thesis by simp
      qed
    qed
    ultimately show ?thesis by blast
  qed
qed

lemma run_epoch_step_no_val:
  assumes ck: "model_checkpoint s = Some c"
    and t: "train_epoch e (tick (print (EpochHeader k (max_epochs s)) s)) = (Inr (tloss, tacc, ttp), s1)"
    and nv: "val_loader s = None"
  shows "\<exists>fl. calls (snd (run_epoch e k s))
           = calls s @ [TrainPhase (train_acc s),
                        CkptStep k [(''train_loss'', tloss), (''train_acc'', tacc)] fl]"
proof -
  let ?s2 = "print (TrainSummary (perf_counter e (ticks s1) - perf_counter e (ticks s))
               tloss tacc ttp) (tick s1)"
  let ?m = "[(''train_loss'', tloss), (''train_acc'', tacc)]"
  from train_epoch_frame [OF t]
  have f1: "same_setup s s1" "calls s1 = calls s @ [TrainPhase (train_acc s)]"
    "model_checkpoint s1 = model_checkpoint s"
    by (simp_all add: tick_def print_def same_setup_def)
  from f1(1) nv have nv1: "val_loader s1 = None" by (simp add: same_setup_def)
  obtain r3 s3 where c: "checkpoint e k ?m ?s2 = (r3, s3)"
    by (cases "checkpoint e k ?m ?s2")
  have ck2: "model_checkpoint ?s2 = Some c" "calls ?s2 = calls s @ [TrainPhase (train_acc s)]"
    using ck f1 by (simp_all add: tick_def print_def)
  from checkpoint_frame [OF c] ck2
  have g: "calls s3 = (calls s @ [TrainPhase (train_acc s)]) @
       [CkptStep k ?m (patience_over e (ckpt_step e c k ?m (get_weights e (model ?s2))))]"
    by simp
  from run_epoch_no_val [OF t nv1 c]
  have "calls (snd (run_epoch e k s)) = calls s3"
    by (simp add: print_def split: sum.splits)
  with g have "calls (snd (run_epoch e k s)) = calls s @ [TrainPhase (train_acc s),
       CkptStep k ?m (patience_over e (ckpt_step e c k ?m (get_weights e (model ?s2))))]"
    by simp
  then show ?thesis by (rule exI)
qed

lemma run_epoch_step_val:
  assumes ck: "model_checkpoint s = Some c"
    and t: "train_epoch e (tick (print (EpochHeader k (max_epochs s)) s)) = (Inr (tloss, tacc, ttp), s1)"
    and v: "val_loader s \<noteq> None"
    and va: "val_epoch e (print RunningValidation
       (print (TrainSummary (perf_counter e (ticks s1) - perf_counter e (ticks s)) tloss tacc ttp)
          (tick s1))) = (Inr (vloss, vacc, vtp), s2)"
  shows "\<exists>fl. calls (snd (run_epoch e k s))
           = calls s @ [TrainPhase (train_acc s), ValPhase (val_acc s),
                        CkptStep k [(''val_loss'', vloss), (''val_acc'', vacc)] fl]"
proof -
  let ?m = "[(''val_loss'', vloss), (''val_acc'', vacc)]"
  from train_epoch_frame [OF t]
  have f1: "same_setup s s1" "calls s1 = calls s @ [TrainPhase (train_acc s)]"
    "model_checkpoint s1 = model_checkpoint s" "val_acc s1 = val_acc s"
    by (simp_all add: tick_def print_def same_setup_def)
  from f1(1) v have v1: "val_loader s1 \<noteq> None" by (simp add: same_setup_def)
  from val_epoch_frame [OF va] f1
  have f2: "calls s2 = calls s @ [TrainPhase (train_acc s), ValPhase (val_acc s)]"
    "model_checkpoint s2 = model_checkpoint s"
    by (simp_all add: tick_def print_def)
  let ?s3 = "print (ValSummary vloss vacc vtp) s2"
  obtain r4 s4 where c: "checkpoint e k ?m ?s3 = (r4, s4)"
    by (cases "checkpoint e k ?m ?s3")
  have ck3: "model_checkpoint ?s3 = Some c"
    "calls ?s3 = calls s @ [TrainPhase (train_acc s), ValPhase (val_acc s)]"
    using ck f2 by (simp_all add: print_def)
  from checkpoint_frame [OF c] ck3
  have g: "calls s4 = (calls s @ [TrainPhase (train_acc s), ValPhase (val_acc s)]) @
       [CkptStep k ?m (patience_over e (ckpt_step e c k ?m (get_weights e (model ?s3))))]"
    by simp
  from run_epoch_val [OF t v1 va c]
  have "calls (snd (run_epoch e k s)) = calls s4"
    by (simp add: print_def split: sum.splits)
  with g have "calls (snd (run_epoch e k s)) = calls s @ [TrainPhase (train_acc s), ValPhase (val_acc s),
       CkptStep k ?m (patience_over e (ckpt_step e c k ?m (get_weights e (model ?s3))))]"
    by simp
  then show ?thesis by (rule exI)
qed

text \<open>
  Claim C3. Every call of \<^verbatim>\<open>step\<close> in a run carries a dictionary whose keys are
  \<^verbatim>\<open>val_loss\<close> and \<^verbatim>\<open>val_acc\<close> when a validation loader is configured, and
  \<^verbatim>\<open>train_loss\<close> and \<^verbatim>\<open>train_acc\<close> when none is: never both pairs, never none. And in
  an epoch that starts in a state with a policy configured and whose phases return,
  \<^verbatim>\<open>step\<close> is called once, after the phases, with the epoch and with the loss and the
  accuracy that the validation phase returned, or those that the training phase returned
  when there is no validation.
\<close>

theorem step_receives_the_metrics_of_one_phase:
  "(\<forall>new j m fl. calls (snd (train e s)) = calls s @ new \<and> CkptStep j m fl \<in> set new \<longrightarrow>
       map fst m = (if val_loader s = None then [''train_loss'', ''train_acc'']
                    else [''val_loss'', ''val_acc'']))
   \<and> (model_checkpoint s \<noteq> None \<and>
      train_epoch e (tick (print (EpochHeader k (max_epochs s)) s)) = (Inr (tloss, tacc, ttp), s1) \<longrightarrow>
        (val_loader s = None \<longrightarrow>
           (\<exists>fl. calls (snd (run_epoch e k s))
              = calls s @ [TrainPhase (train_acc s),
                           CkptStep k [(''train_loss'', tloss), (''train_acc'', tacc)] fl]))
      \<and> (val_loader s \<noteq> None \<and>
         val_epoch e (print RunningValidation
           (print (TrainSummary (perf_counter e (ticks s1) - perf_counter e (ticks s))
                     tloss tacc ttp) (tick s1))) = (Inr (vloss, vacc, vtp), s2) \<longrightarrow>
           (\<exists>fl. calls (snd (run_epoch e k s))
              = calls s @ [TrainPhase (train_acc s), ValPhase (val_acc s),
                           CkptStep k [(''val_loss'', vloss), (''val_acc'', vacc)] fl])))"
proof (intro conjI allI impI)
  fix new j m fl
  assume a: "calls (snd (train e s)) = calls s @ new \<and> CkptStep j m fl \<in> set new"
  obtain r s' where t: "run_epochs e [0 ..< nat (max_epochs s)] s = (r, s')"
    by (cases "run_epochs e [0 ..< nat (max_epochs s)] s")
  from run_epochs_keys [OF t] obtain new' where
    n: "calls s' = calls s @ new'"
      "\<forall>j m fl. CkptStep j m fl \<in> set new' \<longrightarrow> map fst m = metric_keys (val_loader s)"
    by blast
  from a t n(1) have "new' = new" by (simp add: train_def)
  with a n(2) have "map fst m = metric_keys (val_loader s)" by blast
  then show "map fst m = (if val_loader s = None then [''train_loss'', ''train_acc'']
                      else [''val_loss'', ''val_acc''])"
    by (simp only: metric_keys_def)
next
  assume a: "model_checkpoint s \<noteq> None \<and>
      train_epoch e (tick (print (EpochHeader k (max_epochs s)) s)) = (Inr (tloss, tacc, ttp), s1)"
    and nv: "val_loader s = None"
  from a obtain c where c: "model_checkpoint s = Some c" by auto
  from a have t: "train_epoch e (tick (print (EpochHeader k (max_epochs s)) s))
      = (Inr (tloss, tacc, ttp), s1)" by simp
  from run_epoch_step_no_val [OF c t nv]
  show "\<exists>fl. calls (snd (run_epoch e k s))
              = calls s @ [TrainPhase (train_acc s),
                           CkptStep k [(''train_loss'', tloss), (''train_acc'', tacc)] fl]" .
next
  assume a: "model_checkpoint s \<noteq> None \<and>
      train_epoch e (tick (print (EpochHeader k (max_epochs s)) s)) = (Inr (tloss, tacc, ttp), s1)"
    and v: "val_loader s \<noteq> None \<and>
         val_epoch e (print RunningValidation
           (print (TrainSummary (perf_counter e (ticks s1) - perf_counter e (ticks s))
                     tloss tacc ttp) (tick s1))) = (Inr (vloss, vacc, vtp), s2)"
  from a obtain c where c: "model_checkpoint s = Some c" by auto
  from a have t: "train_epoch e (tick (print (EpochHeader k (max_epochs s)) s))
      = (Inr (tloss, tacc, ttp), s1)" by simp
  from v have v1: "val_loader s \<noteq> None" by simp
  from v have v2: "val_epoch e (print RunningValidation
           (print (TrainSummary (perf_counter e (ticks s1) - perf_counter e (ticks s))
                     tloss tacc ttp) (tick s1))) = (Inr (vloss, vacc, vtp), s2)" by simp
  from run_epoch_step_val [OF c t v1 v2]
  show "\<exists>fl. calls (snd (run_epoch e k s))
              = calls s @ [TrainPhase (train_acc s), ValPhase (val_acc s),
                           CkptStep k [(''val_loss'', vloss), (''val_acc'', vacc)] fl]" .
qed

theorem step_receives_the_metrics_of_one_phase_witness:
  "model_checkpoint (demo_trainer 3 (1 / 3) (Some []) None (Some 0) 10) \<noteq> None
   \<and> fst (train_epoch demo_env (tick (print (EpochHeader 0 10)
            (demo_trainer 3 (1 / 3) (Some []) None (Some 0) 10)))) = Inr (Fl 1, Fl 3, Fl 4)
   \<and> val_loader (demo_trainer 3 (1 / 3) (Some []) None (Some 0) 10) = None
   \<and> (\<exists>fl. calls (snd (run_epoch demo_env 0 (demo_trainer 3 (1 / 3) (Some []) None (Some 0) 10)))
         = calls (demo_trainer 3 (1 / 3) (Some []) None (Some 0) 10)
           @ [TrainPhase (train_acc (demo_trainer 3 (1 / 3) (Some []) None (Some 0) 10)),
              CkptStep 0 [(''train_loss'', Fl 1), (''train_acc'', Fl 3)] fl])
   \<and> model_checkpoint (demo_trainer 3 (1 / 3) (Some []) (Some [demo_batch]) (Some 0) 10) \<noteq> None
   \<and> fst (train_epoch demo_env (tick (print (EpochHeader 0 10)
            (demo_trainer 3 (1 / 3) (Some []) (Some [demo_batch]) (Some 0) 10))))
       = Inr (Fl 1, Fl 3, Fl 4)
   \<and> val_loader (demo_trainer 3 (1 / 3) (Some []) (Some [demo_batch]) (Some 0) 10) \<noteq> None
   \<and> fst (val_epoch demo_env (print RunningValidation
         (print (TrainSummary 7 (Fl 1) (Fl 3) (Fl 4))
            (tick (snd (train_epoch demo_env (tick (print (EpochHeader 0 10)
               (demo_trainer 3 (1 / 3) (Some []) (Some [demo_batch]) (Some 0) 10)))))))))
       = Inr (Fl 1, Fl 1, Fl 4)
   \<and> (\<exists>fl. calls (snd (run_epoch demo_env 0
                (demo_trainer 3 (1 / 3) (Some []) (Some [demo_batch]) (Some 0) 10)))
         = calls (demo_trainer 3 (1 / 3) (Some []) (Some [demo_batch]) (Some 0) 10)
           @ [TrainPhase (train_acc (demo_trainer 3 (1 / 3) (Some []) (Some [demo_batch]) (Some 0) 10)),
              ValPhase (val_acc (demo_trainer 3 (1 / 3) (Some []) (Some [demo_batch]) (Some 0) 10)),
              CkptStep 0 [(''val_loss'', Fl 1), (''val_acc'', Fl 1)] fl])"
proof -
  let ?T = "demo_trainer 3 (1 / 3) (Some []) None (Some 0) 10"
  let ?s1 = "snd (train_epoch demo_env (tick (print (EpochHeader 0 (max_epochs ?T)) ?T)))"
  have m: "max_epochs ?T = 10" and h1: "model_checkpoint ?T \<noteq> None"
    and h3: "val_loader ?T = None"
    by (simp_all add: demo_trainer_def init_def)
  have f: "fst (train_epoch demo_env (tick (print (EpochHeader 0 10) ?T)))
      = Inr (Fl 1, Fl 3, Fl 4)"
    by code_simp
  then have h2: "train_epoch demo_env (tick (print (EpochHeader 0 (max_epochs ?T)) ?T))
      = (Inr (Fl 1, Fl 3, Fl 4), ?s1)"
    by (simp add: m prod_eq_iff)
  note th = step_receives_the_metrics_of_one_phase
    [where e = demo_env and s = ?T and k = 0 and tloss = "Fl 1" and tacc = "Fl 3"
       and ttp = "Fl 4" and ?s1.0 = ?s1]
  note no_val = th [THEN conjunct2, THEN mp, OF conjI [OF h1 h2], THEN conjunct1, THEN mp, OF h3]
  let ?V = "demo_trainer 3 (1 / 3) (Some []) (Some [demo_batch]) (Some 0) 10"
  let ?v1 = "snd (train_epoch demo_env (tick (print (EpochHeader 0 10) ?V)))"
  let ?v2 = "print RunningValidation
         (print (TrainSummary (perf_counter demo_env (ticks ?v1) - perf_counter demo_env (ticks ?V))
                   (Fl 1) (Fl 3) (Fl 4)) (tick ?v1))"
  have n: "max_epochs ?V = 10" and g1: "model_checkpoint ?V \<noteq> None"
    and g3: "val_loader ?V \<noteq> None"
    by (simp_all add: demo_trainer_def init_def)
  have ff: "fst (train_epoch demo_env (tick (print (EpochHeader 0 10) ?V)))
      = Inr (Fl 1, Fl 3, Fl 4)"
    by code_simp
  then have g2: "train_epoch demo_env (tick (print (EpochHeader 0 (max_epochs ?V)) ?V))
      = (Inr (Fl 1, Fl 3, Fl 4), ?v1)"
    by (simp add: n prod_eq_iff)
  have d: "perf_counter demo_env (ticks ?v1) - perf_counter demo_env (ticks ?V) = 7"
    by code_simp
  have fv: "fst (val_epoch demo_env (print RunningValidation
         (print (TrainSummary 7 (Fl 1) (Fl 3) (Fl 4))
            (tick (snd (train_epoch demo_env (tick (print (EpochHeader 0 10) ?V))))))))
       = Inr (Fl 1, Fl 1, Fl 4)"
    by code_simp
  have g4: "val_epoch demo_env ?v2 = (Inr (Fl 1, Fl 1, Fl 4), snd (val_epoch demo_env ?v2))"
    unfolding d using fv by (simp add: prod_eq_iff)
  note tv = step_receives_the_metrics_of_one_phase
    [where e = demo_env and s = ?V and k = 0 and tloss = "Fl 1" and tacc = "Fl 3"
       and ttp = "Fl 4" and ?s1.0 = ?v1 and vloss = "Fl 1" and vacc = "Fl 1" and vtp = "Fl 4"
       and ?s2.0 = "snd (val_epoch demo_env ?v2)"]
  note with_val = tv [THEN conjunct2, THEN mp, OF conjI [OF g1 g2], THEN conjunct2, THEN mp,
    OF conjI [OF g3 g4]]
  from no_val with_val h1 f h3 g1 ff g3 fv
  show ?thesis by (simp only: simp_thms)
qed

section \<open>The accumulators\<close>

lemma run_epoch_reset:
  assumes "run_epoch e k s = (r, s')" and "train_acc s = []" and "val_acc s = []"
  shows "\<exists>new. calls s' = calls s @ new \<and>
     (\<forall>a. TrainPhase a \<in> set new \<longrightarrow> a = []) \<and> (\<forall>a. ValPhase a \<in> set new \<longrightarrow> a = []) \<and>
     (\<forall>u. r = Inr u \<longrightarrow> train_acc s' = [] \<and> val_acc s' = [])"
proof -
  from run_epoch_shape [OF assms(1)] obtain new where
    c: "calls s' = calls s @ TrainPhase (train_acc s) # new" and
    d: "(\<exists>err. r = Inl err \<and> err \<noteq> SystemExit \<and>
                (new = [] \<or> (new = [ValPhase (val_acc s)] \<and> val_loader s \<noteq> None)))
       \<or> (model_checkpoint s = None \<and> r = Inr () \<and> train_acc s' = [] \<and>
            (if val_loader s = None then new = [] \<and> val_acc s' = val_acc s
             else new = [ValPhase (val_acc s)] \<and> val_acc s' = []))
       \<or> (\<exists>m fl. model_checkpoint s \<noteq> None \<and> r = (if fl then Inl SystemExit else Inr ()) \<and>
            train_acc s' = [] \<and>
            (if val_loader s = None
             then new = [CkptStep k m fl] \<and> map fst m = [''train_loss'', ''train_acc''] \<and>
                  val_acc s' = val_acc s
             else new = [ValPhase (val_acc s), CkptStep k m fl] \<and>
                  map fst m = [''val_loss'', ''val_acc''] \<and> val_acc s' = []))"
    by blast
  have "(\<forall>a. TrainPhase a \<in> set (TrainPhase (train_acc s) # new) \<longrightarrow> a = []) \<and>
     (\<forall>a. ValPhase a \<in> set (TrainPhase (train_acc s) # new) \<longrightarrow> a = []) \<and>
     (\<forall>u. r = Inr u \<longrightarrow> train_acc s' = [] \<and> val_acc s' = [])"
    using d assms(2,3) by (elim disjE exE conjE) (auto split: if_splits)
  with c show ?thesis by blast
qed

lemma run_epochs_reset:
  "run_epochs e ks s = (r, s') \<Longrightarrow> train_acc s = [] \<Longrightarrow> val_acc s = [] \<Longrightarrow>
   \<exists>new. calls s' = calls s @ new \<and>
     (\<forall>a. TrainPhase a \<in> set new \<longrightarrow> a = []) \<and> (\<forall>a. ValPhase a \<in> set new \<longrightarrow> a = [])"
proof (induction ks arbitrary: s)
  case Nil
  then show ?case by auto
next
  case (Cons k ks)
  obtain r1 s1 where b: "run_epoch e k s = (r1, s1)"
    by (cases "run_epoch e k s")
  from run_epoch_reset [OF b Cons.prems(2,3)] obtain new1 where
    n1: "calls s1 = calls s @ new1" "\<forall>a. TrainPhase a \<in> set new1 \<longrightarrow> a = []"
      "\<forall>a. ValPhase a \<in> set new1 \<longrightarrow> a = []"
      "\<forall>u. r1 = Inr u \<longrightarrow> train_acc s1 = [] \<and> val_acc s1 = []"
    by blast
  show ?case
  proof (cases r1)
    case (Inl err)
    with Cons.prems b have "s' = s1" by simp
    with n1 show ?thesis by blast
  next
    case (Inr u)
    with Cons.prems b have run: "run_epochs e ks s1 = (r, s')" by simp
    from n1(4) Inr have clean: "train_acc s1 = []" "val_acc s1 = []" by simp_all
    from Cons.IH [OF run clean] obtain new2 where
      n2: "calls s' = calls s1 @ new2" "\<forall>a. TrainPhase a \<in> set new2 \<longrightarrow> a = []"
        "\<forall>a. ValPhase a \<in> set new2 \<longrightarrow> a = []"
      by blast
    have "calls s' = calls s @ (new1 @ new2)" using n1 n2 by simp
    moreover have "\<forall>a. TrainPhase a \<in> set (new1 @ new2) \<longrightarrow> a = []" using n1 n2 by auto
    moreover have "\<forall>a. ValPhase a \<in> set (new1 @ new2) \<longrightarrow> a = []" using n1 n2 by auto
    ultimately show ?thesis by blast
  qed
qed

text \<open>
  Claim C7, with the accumulator as the spec describes it. \<^verbatim>\<open>__init__\<close> leaves both
  accumulators in their reset state; in a run of \<^verbatim>\<open>train\<close> that starts with both reset,
  the training accumulator is reset at every entry into the training phase and the
  validation accumulator at every entry into the validation phase, so no update of an
  earlier epoch is there when a later one computes. A phase that returns has reset its
  accumulator, whatever it was sent. The training phase never changes the validation
  accumulator, nor the validation phase the training accumulator: they are two fields.
\<close>

theorem accumulators_reset_at_phase_start:
  "train_acc (init m opt lf batches kw vl f me ck) = [] \<and>
   val_acc (init m opt lf batches kw vl f me ck) = []
   \<and> (train_acc s = [] \<and> val_acc s = [] \<longrightarrow>
        (\<forall>new a. calls (snd (train e s)) = calls s @ new \<longrightarrow>
           (TrainPhase a \<in> set new \<longrightarrow> a = []) \<and> (ValPhase a \<in> set new \<longrightarrow> a = [])))
   \<and> (\<forall>v. fst (train_epoch e s) = Inr v \<longrightarrow> train_acc (snd (train_epoch e s)) = [])
   \<and> (\<forall>v. fst (val_epoch e s) = Inr v \<longrightarrow> val_acc (snd (val_epoch e s)) = [])
   \<and> val_acc (snd (train_epoch e s)) = val_acc s
   \<and> train_acc (snd (val_epoch e s)) = train_acc s"
proof (intro conjI allI impI)
  show "train_acc (init m opt lf batches kw vl f me ck) = []"
    by (simp add: init_def Accuracy_def)
  show "val_acc (init m opt lf batches kw vl f me ck) = []"
    by (simp add: init_def Accuracy_def)
next
  fix new a
  assume r: "train_acc s = [] \<and> val_acc s = []"
    and c: "calls (snd (train e s)) = calls s @ new"
  obtain r s' where t: "run_epochs e [0 ..< nat (max_epochs s)] s = (r, s')"
    by (cases "run_epochs e [0 ..< nat (max_epochs s)] s")
  from r have r1: "train_acc s = []" and r2: "val_acc s = []" by simp_all
  from run_epochs_reset [OF t r1 r2] obtain new' where
    n: "calls s' = calls s @ new'" "\<forall>a. TrainPhase a \<in> set new' \<longrightarrow> a = []"
      "\<forall>a. ValPhase a \<in> set new' \<longrightarrow> a = []"
    by blast
  from c t n(1) have e: "new' = new" by (simp add: train_def)
  { assume "TrainPhase a \<in> set new"
    with n(2) e show "a = []" by blast }
  { assume "ValPhase a \<in> set new"
    with n(3) e show "a = []" by blast }
next
  fix v
  assume a: "fst (train_epoch e s) = Inr v"
  obtain r1 s1 where t: "train_epoch e s = (r1, s1)" by (cases "train_epoch e s")
  from train_epoch_frame [OF t] a t show "train_acc (snd (train_epoch e s)) = []" by (cases v) auto
next
  fix v
  assume a: "fst (val_epoch e s) = Inr v"
  obtain r1 s1 where t: "val_epoch e s = (r1, s1)" by (cases "val_epoch e s")
  from val_epoch_frame [OF t] a t show "val_acc (snd (val_epoch e s)) = []" by (cases v) auto
next
  obtain r1 s1 where t: "train_epoch e s = (r1, s1)" by (cases "train_epoch e s")
  from train_epoch_frame [OF t] t show "val_acc (snd (train_epoch e s)) = val_acc s" by simp
next
  obtain r1 s1 where t: "val_epoch e s = (r1, s1)" by (cases "val_epoch e s")
  from val_epoch_frame [OF t] t show "train_acc (snd (val_epoch e s)) = train_acc s" by simp
qed

theorem accumulators_reset_at_phase_start_witness:
  "train_acc (demo_trainer 3 (1 / 3) (Some []) (Some [demo_batch]) (Some 0) 10) = []
   \<and> val_acc (demo_trainer 3 (1 / 3) (Some []) (Some [demo_batch]) (Some 0) 10) = []
   \<and> calls (snd (train demo_env (demo_trainer 3 (1 / 3) (Some []) (Some [demo_batch]) (Some 0) 10)))
       = calls (demo_trainer 3 (1 / 3) (Some []) (Some [demo_batch]) (Some 0) 10)
         @ [TrainPhase [], ValPhase [],
            CkptStep 0 [(''val_loss'', Fl 1), (''val_acc'', Fl 1)] False,
            TrainPhase [], ValPhase [],
            CkptStep 1 [(''val_loss'', Fl 1), (''val_acc'', Fl 1)] True]
   \<and> fst (train_epoch demo_env (demo_trainer 3 (1 / 3) (Some []) (Some [demo_batch]) (Some 0) 10))
       = Inr (Fl 1, Fl 3, Fl 4)
   \<and> train_acc (snd (train_epoch demo_env
         (demo_trainer 3 (1 / 3) (Some []) (Some [demo_batch]) (Some 0) 10))) = []
   \<and> fst (val_epoch demo_env (demo_trainer 3 (1 / 3) (Some []) (Some [demo_batch]) (Some 0) 10))
       = Inr (Fl 1, Fl 1, Fl 4)
   \<and> val_acc (snd (val_epoch demo_env
         (demo_trainer 3 (1 / 3) (Some []) (Some [demo_batch]) (Some 0) 10))) = []"
proof -
  let ?T = "demo_trainer 3 (1 / 3) (Some []) (Some [demo_batch]) (Some 0) 10"
  have a: "train_acc ?T = []" "val_acc ?T = []"
    by (simp_all add: demo_trainer_def init_def Accuracy_def)
  have c: "calls (snd (train demo_env ?T))
       = calls ?T
         @ [TrainPhase [], ValPhase [],
            CkptStep 0 [(''val_loss'', Fl 1), (''val_acc'', Fl 1)] False,
            TrainPhase [], ValPhase [],
            CkptStep 1 [(''val_loss'', Fl 1), (''val_acc'', Fl 1)] True]"
    by code_simp
  have t: "fst (train_epoch demo_env ?T) = Inr (Fl 1, Fl 3, Fl 4)"
    by code_simp
  have v: "fst (val_epoch demo_env ?T) = Inr (Fl 1, Fl 1, Fl 4)"
    by code_simp
  note th = accumulators_reset_at_phase_start [where e = demo_env and s = ?T]
  from th [THEN conjunct2, THEN conjunct2, THEN conjunct2, THEN conjunct1, THEN spec, THEN mp, OF t]
    th [THEN conjunct2, THEN conjunct2, THEN conjunct2, THEN conjunct2, THEN conjunct1,
        THEN spec, THEN mp, OF v]
    a c t v
  show ?thesis by simp
qed

section \<open>The training phase\<close>

text \<open>
  A batch, then the loop, when nothing raises: the keyword arguments are a mapping, the
  logging interval is not zero and the two clock readings of every step differ. The loop
  then returns the losses and the throughputs of \<open>batch_stats\<close>, has sent its updates
  to the training accumulator, and has printed a progress line at the indices that the
  interval divides.
\<close>

lemma train_batch_ok:
  assumes "loss_fn_args s = Some kw"
    and "perf_counter e (Suc (ticks s)) \<noteq> perf_counter e (ticks s)"
    and "log_every s \<noteq> 0"
  shows "\<exists>s'. train_batch e i (x, target) ls ts s =
           (Inr (ls @ [item e (mx_mean e (loss_fn s (forward e (model s) x) target kw))],
                 ts @ [Fl (of_nat (shape0 e x) /
                           (perf_counter e (Suc (ticks s)) - perf_counter e (ticks s)))]), s')
         \<and> same_setup s s' \<and> ticks s' = Suc (Suc (ticks s))
         \<and> train_acc s' = train_acc s @ [(forward e (model s) x, target)]
         \<and> model s' = snd (opt_update e (optimizer s) (model s) (grad e (model s) x target))
         \<and> optimizer s' = fst (opt_update e (optimizer s) (model s) (grad e (model s) x target))
         \<and> length (filter progress_line (stdout s')) =
             length (filter progress_line (stdout s)) + (if int i mod log_every s = 0 then 1 else 0)"
  using assms
  by (simp add: train_batch_def train_step_def acc_update_def Let_def tick_def print_def
        py_truediv_def py_mod_def same_setup_def split: prod.splits)

lemma train_batches_ok:
  assumes "loss_fn_args s = Some kw" and "log_every s \<noteq> 0"
    and "\<forall>j<length bs. perf_counter e (Suc (ticks s + 2 * j)) \<noteq> perf_counter e (ticks s + 2 * j)"
  shows "\<exists>s'. train_batches e i bs ls ts s =
           (Inr (ls @ map fst (batch_stats e (loss_fn s) kw (model s) (optimizer s) (ticks s) bs),
                 ts @ map (fst \<circ> snd)
                        (batch_stats e (loss_fn s) kw (model s) (optimizer s) (ticks s) bs)), s')
         \<and> same_setup s s'
         \<and> train_acc s' = train_acc s
              @ map (snd \<circ> snd) (batch_stats e (loss_fn s) kw (model s) (optimizer s) (ticks s) bs)
         \<and> length (filter progress_line (stdout s')) =
             length (filter progress_line (stdout s))
             + length (filter (\<lambda>j. int j mod log_every s = 0) [i ..< i + length bs])"
  using assms
proof (induction bs arbitrary: i ls ts s)
  case Nil
  then show ?case by (simp add: same_setup_refl)
next
  case (Cons b bs)
  obtain x target where b: "b = (x, target)" by (cases b)
  from Cons.prems(3) have c0: "perf_counter e (Suc (ticks s)) \<noteq> perf_counter e (ticks s)"
    by (auto dest: spec [of _ 0])
  from train_batch_ok [OF Cons.prems(1) c0 Cons.prems(2), of i x target ls ts]
  obtain s1 where
    s1: "train_batch e i (x, target) ls ts s =
           (Inr (ls @ [item e (mx_mean e (loss_fn s (forward e (model s) x) target kw))],
                 ts @ [Fl (of_nat (shape0 e x) /
                           (perf_counter e (Suc (ticks s)) - perf_counter e (ticks s)))]), s1)"
      "same_setup s s1" "ticks s1 = Suc (Suc (ticks s))"
      "train_acc s1 = train_acc s @ [(forward e (model s) x, target)]"
      "model s1 = snd (opt_update e (optimizer s) (model s) (grad e (model s) x target))"
      "optimizer s1 = fst (opt_update e (optimizer s) (model s) (grad e (model s) x target))"
      "length (filter progress_line (stdout s1)) =
         length (filter progress_line (stdout s)) + (if int i mod log_every s = 0 then 1 else 0)"
    by blast
  from s1(2) Cons.prems have p1: "loss_fn_args s1 = Some kw" and p2: "log_every s1 \<noteq> 0"
    and lf: "loss_fn s1 = loss_fn s" and le: "log_every s1 = log_every s"
    by (simp_all add: same_setup_def)
  have p3: "\<forall>j<length bs. perf_counter e (Suc (ticks s1 + 2 * j)) \<noteq> perf_counter e (ticks s1 + 2 * j)"
  proof (intro allI impI)
    fix j assume "j < length bs"
    then have "Suc j < length (b # bs)" by simp
    with Cons.prems(3) have "perf_counter e (Suc (ticks s + 2 * Suc j)) \<noteq> perf_counter e (ticks s + 2 * Suc j)"
      by blast
    then show "perf_counter e (Suc (ticks s1 + 2 * j)) \<noteq> perf_counter e (ticks s1 + 2 * j)"
      by (simp add: s1(3))
  qed
  from Cons.IH [OF p1 p2 p3, of "Suc i"
      "ls @ [item e (mx_mean e (loss_fn s (forward e (model s) x) target kw))]"
      "ts @ [Fl (of_nat (shape0 e x) / (perf_counter e (Suc (ticks s)) - perf_counter e (ticks s)))]"]
  obtain s' where
    s': "train_batches e (Suc i) bs
           (ls @ [item e (mx_mean e (loss_fn s (forward e (model s) x) target kw))])
           (ts @ [Fl (of_nat (shape0 e x) / (perf_counter e (Suc (ticks s)) - perf_counter e (ticks s)))]) s1 =
           (Inr ((ls @ [item e (mx_mean e (loss_fn s (forward e (model s) x) target kw))])
                   @ map fst (batch_stats e (loss_fn s1) kw (model s1) (optimizer s1) (ticks s1) bs),
                 (ts @ [Fl (of_nat (shape0 e x) / (perf_counter e (Suc (ticks s)) - perf_counter e (ticks s)))])
                   @ map (fst \<circ> snd)
                        (batch_stats e (loss_fn s1) kw (model s1) (optimizer s1) (ticks s1) bs)), s')"
      "same_setup s1 s'"
      "train_acc s' = train_acc s1
              @ map (snd \<circ> snd) (batch_stats e (loss_fn s1) kw (model s1) (optimizer s1) (ticks s1) bs)"
      "length (filter progress_line (stdout s')) =
             length (filter progress_line (stdout s1))
             + length (filter (\<lambda>j. int j mod log_every s1 = 0) [Suc i ..< Suc i + length bs])"
    by blast
  have st: "batch_stats e (loss_fn s) kw (model s) (optimizer s) (ticks s) (b # bs) =
      (item e (mx_mean e (loss_fn s (forward e (model s) x) target kw)),
       Fl (of_nat (shape0 e x) / (perf_counter e (Suc (ticks s)) - perf_counter e (ticks s))),
       (forward e (model s) x, target))
      # batch_stats e (loss_fn s1) kw (model s1) (optimizer s1) (ticks s1) bs"
    by (simp add: b s1 lf)
  have up: "[i ..< i + length (b # bs)] = i # [Suc i ..< Suc i + length bs]"
    using upt_conv_Cons [of i "i + length (b # bs)"] by simp
  have "train_batches e i (b # bs) ls ts s =
           (Inr (ls @ map fst (batch_stats e (loss_fn s) kw (model s) (optimizer s) (ticks s) (b # bs)),
                 ts @ map (fst \<circ> snd)
                        (batch_stats e (loss_fn s) kw (model s) (optimizer s) (ticks s) (b # bs))), s')"
    unfolding st using s1(1) s'(1) by (simp add: b)
  moreover have "same_setup s s'" using s1(2) s'(2) by (rule same_setup_trans)
  moreover have "train_acc s' = train_acc s
              @ map (snd \<circ> snd) (batch_stats e (loss_fn s) kw (model s) (optimizer s) (ticks s) (b # bs))"
    unfolding st using s1(4) s'(3) by simp
  moreover have "length (filter progress_line (stdout s')) =
             length (filter progress_line (stdout s))
             + length (filter (\<lambda>j. int j mod log_every s = 0) [i ..< i + length (b # bs)])"
    unfolding up using s1(7) s'(4) le by simp
  ultimately show ?case by blast
qed







section \<open>The division of the throughput\<close>











section \<open>The progress lines\<close>

text \<open>
  The interval that \<^verbatim>\<open>__init__\<close> computes, and the count of the indices below \<open>n\<close>
  that a positive interval \<open>l\<close> divides: the ceiling of \<open>n / l\<close>.
\<close>

lemma init_log_every:
  "log_every (init m opt lf batches kw vl f me ck) = py_int (f * of_nat (length batches))"
  by (simp add: init_def)

lemma py_int_floor: "0 \<le> x \<Longrightarrow> py_int x = \<lfloor>x\<rfloor>"
  by (simp add: py_int_def)

lemma interval_shifted_div:
  fixes l n :: nat
  assumes "0 < l"
  shows "(n + l - 1) div l = (if n mod l = 0 then n div l else n div l + 1)"
proof -
  define q r where "q = n div l" and "r = n mod l"
  have n: "n = l * q + r" by (simp add: q_def r_def)
  have r: "r < l" using assms by (simp add: r_def)
  show ?thesis
  proof (cases "r = 0")
    case True
    have e: "n + l - 1 = l * q + (l - 1)" using assms by (simp add: n True)
    have "(n + l - 1) div l = (l * q + (l - 1)) div l" by (simp only: e)
    also have "\<dots> = q + (l - 1) div l" using assms by (simp only: div_mult_self4)
    also have "\<dots> = q" using assms by simp
    finally show ?thesis using True by (simp add: q_def r_def)
  next
    case False
    have e: "n + l - 1 = l * (q + 1) + (r - 1)" using False by (simp add: n)
    have "(n + l - 1) div l = (l * (q + 1) + (r - 1)) div l" by (simp only: e)
    also have "\<dots> = (q + 1) + (r - 1) div l" using assms by (simp only: div_mult_self4)
    also have "\<dots> = q + 1" using r by simp
    finally show ?thesis using False by (simp add: q_def r_def)
  qed
qed

lemma interval_multiples_step:
  fixes l n :: nat
  assumes "0 < l"
  shows "(Suc n + l - 1) div l = (n + l - 1) div l + (if n mod l = 0 then 1 else 0)"
proof -
  have "Suc n + l - 1 = n + l" by simp
  then have "(Suc n + l - 1) div l = (n + l) div l" by (simp only:)
  also have "\<dots> = n div l + 1" using assms by simp
  finally show ?thesis
    using interval_shifted_div [OF assms, of n] by simp
qed

lemma interval_multiples:
  fixes l n :: nat
  assumes "0 < l"
  shows "length (filter (\<lambda>j. j mod l = 0) [0 ..< n]) = (n + l - 1) div l"
proof (induction n)
  case 0
  from assms show ?case by simp
next
  case (Suc n)
  have "length (filter (\<lambda>j. j mod l = 0) [0 ..< Suc n])
      = length (filter (\<lambda>j. j mod l = 0) [0 ..< n]) + (if n mod l = 0 then 1 else 0)"
    by simp
  also have "\<dots> = (n + l - 1) div l + (if n mod l = 0 then 1 else 0)"
    by (simp only: Suc.IH)
  also have "\<dots> = (Suc n + l - 1) div l"
    by (simp only: interval_multiples_step [OF assms])
  finally show ?case .
qed

lemma ceiling_as_div:
  fixes l n :: nat
  assumes "0 < l"
  shows "\<lceil>(of_nat n :: rat) / of_nat l\<rceil> = int ((n + l - 1) div l)"
proof -
  have m: "int n mod int l = int (n mod l)" by (simp add: zmod_int)
  have dv: "int n div int l = int (n div l)" by (simp add: zdiv_int)
  have "\<lceil>(of_nat n :: rat) / of_nat l\<rceil> = \<lceil>(of_int (int n) :: rat) / of_int (int l)\<rceil>"
    by simp
  also have "\<dots> = - (- int n div int l)"
    by (rule ceiling_divide_eq_div)
  finally have c: "\<lceil>(of_nat n :: rat) / of_nat l\<rceil> = - (- int n div int l)" .
  show ?thesis
  proof (cases "n mod l = 0")
    case True
    with m have "int n mod int l = 0" by simp
    with assms have "- int n div int l = - (int n div int l)"
      by (simp add: zdiv_zminus1_eq_if)
    with c dv True show ?thesis using interval_shifted_div [OF assms, of n] by simp
  next
    case False
    with m have "int n mod int l \<noteq> 0" by simp
    with assms have "- int n div int l = - (int n div int l) - 1"
      by (simp add: zdiv_zminus1_eq_if)
    with c dv False show ?thesis using interval_shifted_div [OF assms, of n] by simp
  qed
qed

text \<open>
  When the interval is positive and nothing raises, the training phase prints
  \<open>ceil(N / max(1, log_every))\<close> progress lines over its \<open>N\<close> batches.
\<close>

lemma train_epoch_progress_lines:
  assumes "loss_fn_args s = Some kw" and "0 < log_every s"
    and "\<forall>j<length (train_loader s).
           perf_counter e (Suc (ticks s + 2 * j)) \<noteq> perf_counter e (ticks s + 2 * j)"
  shows "int (length (filter progress_line (stdout (snd (train_epoch e s)))))
           = int (length (filter progress_line (stdout s)))
             + \<lceil>(of_nat (length (train_loader s)) :: rat) / of_int (max 1 (log_every s))\<rceil>"
proof -
  let ?s0 = "(trace (TrainPhase (train_acc s)) s)\<lparr>model := model_train e (model s)\<rparr>"
  let ?N = "length (train_loader s)"
  define l where "l = nat (log_every s)"
  from assms(2) have l: "0 < l" "log_every s = int l" by (simp_all add: l_def)
  have s0: "loss_fn_args ?s0 = Some kw" "log_every ?s0 \<noteq> 0" "log_every ?s0 = log_every s"
    "ticks ?s0 = ticks s" "train_loader ?s0 = train_loader s" "stdout ?s0 = stdout s"
    using assms(1,2) by (simp_all add: trace_def)
  have clk: "\<forall>j<length (train_loader s).
      perf_counter e (Suc (ticks ?s0 + 2 * j)) \<noteq> perf_counter e (ticks ?s0 + 2 * j)"
    using assms(3) by (simp only: s0)
  from train_batches_ok [OF s0(1) s0(2) clk, of 0 "[]" "[]"]
  obtain ls ts s1 where
    b: "train_batches e 0 (train_loader s) [] [] ?s0 = (Inr (ls, ts), s1)"
    and c: "length (filter progress_line (stdout s1)) =
             length (filter progress_line (stdout ?s0))
             + length (filter (\<lambda>j. int j mod log_every ?s0 = 0) [0 ..< 0 + ?N])"
    by blast
  have "stdout (snd (train_epoch e s)) = stdout s1"
    using b by (simp add: train_epoch_def Let_def trace_def)
  moreover have "(\<lambda>j. int j mod log_every ?s0 = 0) = (\<lambda>j. j mod l = 0)"
    by (simp add: s0 l(2) fun_eq_iff flip: of_nat_mod)
  ultimately have "length (filter progress_line (stdout (snd (train_epoch e s))))
      = length (filter progress_line (stdout s)) + length (filter (\<lambda>j. j mod l = 0) [0 ..< ?N])"
    using c by (simp add: s0(6))
  also have "length (filter (\<lambda>j. j mod l = 0) [0 ..< ?N]) = (?N + l - 1) div l"
    by (rule interval_multiples [OF l(1)])
  finally have "int (length (filter progress_line (stdout (snd (train_epoch e s)))))
      = int (length (filter progress_line (stdout s))) + int ((?N + l - 1) div l)"
    by simp
  also have "int ((?N + l - 1) div l) = \<lceil>(of_nat ?N :: rat) / of_nat l\<rceil>"
    by (rule ceiling_as_div [OF l(1), symmetric])
  also have "(of_nat l :: rat) = of_int (max 1 (log_every s))"
    using assms(2) by (simp add: l(2))
  finally show ?thesis .
qed

text \<open>
  Claim C1 at five batches and the default log fraction \<open>0.1\<close>, where it asks for five
  progress lines: the interval \<open>int(0.1 * 5)\<close> is zero, \<^verbatim>\<open>batch_idx % self.log_every\<close>
  raises \<^verbatim>\<open>ZeroDivisionError\<close> at the first batch, and no progress line is printed.
\<close>

theorem short_epoch_prints_no_progress_line:
  "log_every (demo_trainer 5 (1 / 10) (Some []) None None 10) = 0
   \<and> fst (train_epoch demo_env (demo_trainer 5 (1 / 10) (Some []) None None 10))
       = Inl ZeroDivisionError
   \<and> filter progress_line
       (stdout (snd (train_epoch demo_env (demo_trainer 5 (1 / 10) (Some []) None None 10)))) = []"
  by code_simp

section \<open>Means\<close>

text \<open>
  In the exact arithmetic of this embedding, \<open>np_mean\<close> depends on the values in the
  list and not on their order. The rounding of floating-point additions, which depends on
  the order in which numpy adds, is outside the embedding.
\<close>

lemma np_mean_permutation:
  assumes "mset xs = mset ys"
  shows "np_mean xs = np_mean ys"
proof -
  from assms have s: "set xs = set ys" by (rule mset_eq_setD)
  from assms have l: "length xs = length ys" by (rule mset_eq_length)
  from assms have "mset (map fl_val xs) = mset (map fl_val ys)" by simp
  then have "sum_mset (mset (map fl_val xs)) = sum_mset (mset (map fl_val ys))" by simp
  then have t: "sum_list (map fl_val xs) = sum_list (map fl_val ys)"
    by (simp only: sum_mset_sum_list)
  from l have e: "xs = [] \<longleftrightarrow> ys = []" by auto
  show ?thesis unfolding np_mean_def s l t e ..
qed

end
